theory Spec2Isabelle
  imports Complex_Main "HOL-Library.Sublist"
begin

section \<open>JavaScript strings\<close>

text \<open>
  A JavaScript string is a sequence of UTF-16 code units. The repository's strings hold
  Devanagari text, which an 8-bit \<open>char\<close> cannot carry, so a string is modelled as the
  list of its code units, each a natural number below 65536. \<open>asc\<close> embeds an ASCII
  literal; every other literal of the source is written out as its code units.
\<close>

type_synonym jsstring = "nat list"

definition asc :: "string \<Rightarrow> jsstring" where
  "asc s = map of_char s"

text \<open>
  \<open>String.prototype.toLowerCase\<close>. The model lowers Basic Latin and Latin-1 capitals
  and leaves every other code unit as it is; the Devanagari block (0x0900 to 0x097F), the
  digits, the punctuation and the white space of the program's texts have no case.
  Capitals of other scripts, which the engine lowers as well, are outside this table;
  the general properties of the search and of the floor of the detector are therefore
  stated for an arbitrary lowering.
\<close>

definition lowerUnit :: "nat \<Rightarrow> nat" where
  "lowerUnit c =
     (if (65 \<le> c \<and> c \<le> 90) \<or> (192 \<le> c \<and> c \<le> 222 \<and> c \<noteq> 215) then c + 32 else c)"

definition toLowerCase :: "jsstring \<Rightarrow> jsstring" where
  "toLowerCase s = map lowerUnit s"

text \<open>
  The code units matched by \<open>\s\<close> in a regular expression and removed by
  \<open>String.prototype.trim\<close>: ECMAScript's WhiteSpace and LineTerminator.
\<close>

definition isWhiteSpace :: "nat \<Rightarrow> bool" where
  "isWhiteSpace c =
     (c = 9 \<or> c = 10 \<or> c = 11 \<or> c = 12 \<or> c = 13 \<or> c = 32 \<or> c = 160 \<or> c = 5760
      \<or> (8192 \<le> c \<and> c \<le> 8202) \<or> c = 8232 \<or> c = 8233 \<or> c = 8239 \<or> c = 8287
      \<or> c = 12288 \<or> c = 65279)"

definition trim :: "jsstring \<Rightarrow> jsstring" where
  "trim s = rev (dropWhile isWhiteSpace (rev (dropWhile isWhiteSpace s)))"

text \<open>
  \<open>s.split(/\s+/)\<close>: the pieces between maximal runs of white space. A run at the start
  or at the end of the string leaves an empty piece there, and the empty string splits
  into one empty piece. \<open>splitAux inRun cur rest\<close> scans \<open>rest\<close> with the current piece
  \<open>cur\<close> held in reverse; \<open>inRun\<close> says that the previous unit was white space.
\<close>

fun splitAux :: "bool \<Rightarrow> jsstring \<Rightarrow> jsstring \<Rightarrow> jsstring list" where
  "splitAux inRun cur [] = [rev cur]"
| "splitAux inRun cur (c # cs) =
     (if isWhiteSpace c
      then (if inRun then splitAux True cur cs else rev cur # splitAux True [] cs)
      else splitAux False (c # cur) cs)"

definition splitWhiteSpace :: "jsstring \<Rightarrow> jsstring list" where
  "splitWhiteSpace s = splitAux False [] s"

text \<open>\<open>s.includes(w)\<close>: \<open>w\<close> occurs in \<open>s\<close> as a contiguous run of code units.\<close>

fun includes_js :: "jsstring \<Rightarrow> jsstring \<Rightarrow> bool" where
  "includes_js [] w = (w = [])"
| "includes_js (c # cs) w = (prefix w (c # cs) \<or> includes_js cs w)"

section \<open>Types of the chatbot (types/index.ts)\<close>

datatype SupportedLanguage = ENGLISH | HINDI | RAJASTHANI

record DocumentMetadata =
  source :: jsstring
  language :: SupportedLanguage
  category :: jsstring
  lastUpdated :: int

record IDocumentChunk =
  doc_id :: jsstring
  content :: jsstring
  metadata :: DocumentMetadata

section \<open>Retrieval (ragUtils.ts, searchDocuments)\<close>

text \<open>
  \<open>collegeDocuments\<close> is a module-level array that \<open>addDocument\<close> appends to, so the
  store is a parameter of the search. The score of a document is the \<open>reduce\<close> over the
  query words that adds one for every word that the lowered content includes.
\<close>

definition docScore :: "jsstring list \<Rightarrow> IDocumentChunk \<Rightarrow> nat" where
  "docScore queryWords doc =
     (let contentWords = toLowerCase (content doc)
      in foldl (\<lambda>acc word. acc + (if includes_js contentWords word then 1 else 0)) 0 queryWords)"

text \<open>
  \<open>Array.prototype.sort\<close> is stable and the comparator is \<open>b.score - a.score\<close>: a stable
  sort by descending score, here \<open>sort_key\<close> on the negated score.
\<close>

definition searchDocuments ::
  "IDocumentChunk list \<Rightarrow> jsstring \<Rightarrow> SupportedLanguage \<Rightarrow> IDocumentChunk list" where
  "searchDocuments collegeDocuments query lang =
     (let languageSpecificDocs = filter (\<lambda>doc. language (metadata doc) = lang) collegeDocuments;
          searchDocs = (if length languageSpecificDocs > 0 then languageSpecificDocs
                        else filter (\<lambda>doc. language (metadata doc) = ENGLISH) collegeDocuments);
          queryWords = splitWhiteSpace (toLowerCase query);
          scoredDocs = map (\<lambda>doc. (doc, docScore queryWords doc)) searchDocs
      in map fst (take 3 (sort_key (\<lambda>item. - int (snd item))
                            (filter (\<lambda>item. snd item > 0) scoredDocs))))"

text \<open>
  The only library function in the search whose table of cases is not written out here is
  the lowering. \<open>searchDocumentsWith\<close> is the same search with the lowering as a
  parameter, so that a property proved of it for every lowering holds of the search under
  the lowering of the JavaScript engine; \<open>searchDocuments\<close> is its instance at
  \<open>toLowerCase\<close>.
\<close>

definition docScoreWith ::
  "(jsstring \<Rightarrow> jsstring) \<Rightarrow> jsstring list \<Rightarrow> IDocumentChunk \<Rightarrow> nat" where
  "docScoreWith lower queryWords doc =
     (let contentWords = lower (content doc)
      in foldl (\<lambda>acc word. acc + (if includes_js contentWords word then 1 else 0)) 0 queryWords)"

definition searchDocumentsWith ::
  "(jsstring \<Rightarrow> jsstring) \<Rightarrow> IDocumentChunk list \<Rightarrow> jsstring \<Rightarrow> SupportedLanguage
     \<Rightarrow> IDocumentChunk list" where
  "searchDocumentsWith lower collegeDocuments query lang =
     (let languageSpecificDocs = filter (\<lambda>doc. language (metadata doc) = lang) collegeDocuments;
          searchDocs = (if length languageSpecificDocs > 0 then languageSpecificDocs
                        else filter (\<lambda>doc. language (metadata doc) = ENGLISH) collegeDocuments);
          queryWords = splitWhiteSpace (lower query);
          scoredDocs = map (\<lambda>doc. (doc, docScoreWith lower queryWords doc)) searchDocs
      in map fst (take 3 (sort_key (\<lambda>item. - int (snd item))
                            (filter (\<lambda>item. snd item > 0) scoredDocs))))"

text \<open>
  The score in the words of the specification. The whitespace-delimited tokens of a
  string are its maximal runs of code units that are not white space; a token is never
  empty, and a string of white space only has no token. The token-overlap score of a chunk
  is the number of tokens of the lowered query (counted with repetition) that occur as
  substrings of the lowered content of the chunk.
\<close>

fun tokenAux :: "jsstring \<Rightarrow> jsstring \<Rightarrow> jsstring list" where
  "tokenAux cur [] = (if cur = [] then [] else [rev cur])"
| "tokenAux cur (c # cs) =
     (if isWhiteSpace c then (if cur = [] then tokenAux [] cs else rev cur # tokenAux [] cs)
      else tokenAux (c # cur) cs)"

definition tokens :: "jsstring \<Rightarrow> jsstring list" where
  "tokens s = tokenAux [] s"

definition tokenOverlap ::
  "(jsstring \<Rightarrow> jsstring) \<Rightarrow> jsstring \<Rightarrow> IDocumentChunk \<Rightarrow> nat" where
  "tokenOverlap lower query doc =
     length (filter (\<lambda>tok. sublist tok (lower (content doc))) (tokens (lower query)))"

section \<open>Language utilities (languageUtils.ts)\<close>

text \<open>
  The keyword lists of \<open>languagePatterns\<close>, in the order of the source. The Rajasthani
  list holds one keyword (2352, 2366, 2350) twice, as the source does.
\<close>

definition keywordsHindi :: "jsstring list" where
  "keywordsHindi =
     [[2350, 2376, 2306],
      [2310, 2346],
      [2325, 2381, 2351, 2366],
      [2325, 2376, 2360, 2375],
      [2325, 2361, 2366, 2305],
      [2325, 2348],
      [2325, 2381, 2351, 2379, 2306],
      [2361, 2376],
      [2361, 2376, 2306],
      [2341, 2366],
      [2341, 2375],
      [2361, 2379, 2327, 2366],
      [2361, 2379, 2306, 2327, 2375],
      [2344, 2350, 2360, 2381, 2340, 2375],
      [2343, 2344, 2381, 2351, 2357, 2366, 2342],
      [2325, 2371, 2346, 2351, 2366],
      [2361, 2366, 2305],
      [2344, 2361, 2368, 2306],
      [2309, 2330, 2381, 2331, 2366],
      [2348, 2369, 2352, 2366],
      [2331, 2366, 2340, 2381, 2352],
      [2358, 2367, 2325, 2381, 2359, 2325],
      [2325, 2377, 2354, 2375, 2332]]"

definition keywordsRajasthani :: "jsstring list" where
  "keywordsRajasthani =
     [[2361, 2370, 2305],
      [2341, 2366, 2352, 2379],
      [2341, 2366, 2352, 2368],
      [2325, 2381, 2351, 2370, 2306],
      [2325, 2367, 2340, 2381, 2340, 2375],
      [2352, 2366, 2350],
      [2352, 2366, 2350],
      [2343, 2344, 2381, 2351, 2379],
      [2350, 2381, 2361, 2366, 2352, 2379],
      [2350, 2381, 2361, 2366, 2352, 2368],
      [2352, 2366, 2332, 2360, 2381, 2341, 2366, 2344],
      [2350, 2366, 2352, 2357, 2366, 2337, 2364],
      [2332, 2376, 2360, 2354, 2350, 2375, 2352],
      [2332, 2379, 2343, 2346, 2369, 2352],
      [2313, 2342, 2351, 2346, 2369, 2352],
      [2349, 2366, 2359, 2366],
      [2348, 2379, 2354, 2368]]"

definition keywordsEnglish :: "jsstring list" where
  "keywordsEnglish =
     map asc
      [''hello'', ''hi'', ''thank'', ''please'', ''yes'', ''no'', ''good'', ''bad'',
       ''student'', ''teacher'', ''college'', ''what'', ''where'', ''when'', ''why'', ''how'',
       ''who'', ''which'', ''can'', ''will'', ''would'', ''should'']"

definition keywordsOf :: "SupportedLanguage \<Rightarrow> jsstring list" where
  "keywordsOf lang =
     (case lang of ENGLISH \<Rightarrow> keywordsEnglish | HINDI \<Rightarrow> keywordsHindi
      | RAJASTHANI \<Rightarrow> keywordsRajasthani)"

text \<open>
  The \<open>script\<close> patterns: the Devanagari block U+0900 to U+097F for Hindi and for
  Rajasthani alike, \<open>/[a-zA-Z]/g\<close> for English. \<open>(text.match(pattern.script) || []).length\<close> counts the
  code units of the text that lie in the class.
\<close>

definition script :: "SupportedLanguage \<Rightarrow> nat \<Rightarrow> bool" where
  "script lang c =
     (case lang of
        ENGLISH \<Rightarrow> (97 \<le> c \<and> c \<le> 122) \<or> (65 \<le> c \<and> c \<le> 90)
      | HINDI \<Rightarrow> 2304 \<le> c \<and> c \<le> 2431
      | RAJASTHANI \<Rightarrow> 2304 \<le> c \<and> c \<le> 2431)"

definition scriptMatches :: "SupportedLanguage \<Rightarrow> jsstring \<Rightarrow> nat" where
  "scriptMatches lang text = length (filter (script lang) text)"

definition keywordMatches :: "SupportedLanguage \<Rightarrow> jsstring \<Rightarrow> nat" where
  "keywordMatches lang cleanText =
     length (filter (\<lambda>keyword. includes_js cleanText (toLowerCase keyword)) (keywordsOf lang))"

text \<open>
  A call of an external service either returns a value or throws. \<open>franc\<close> (the
  statistical language identifier) and the text generation of the Hugging Face client are
  such calls; the program reaches them through its environment.
\<close>

datatype 'a outcome = Returned 'a | Thrown

record ILanguageDetectionResult =
  det_language :: SupportedLanguage
  det_confidence :: real
  alternatives :: "(SupportedLanguage \<times> real) list option"

text \<open>
  The detector is given twice. \<open>detectLanguage\<close> computes the scores in exact
  arithmetic over the real numbers; \<open>detectLanguageDouble\<close>, further down, computes
  them as the JavaScript engine does, in IEEE 754 double precision. The two agree unless a
  score lies within a rounding error of a threshold or of another score.

  \<open>Object.entries(scores)\<close> lists the languages in the order the object literal names
  them (en, hi, raj); the sort is stable with comparator \<open>b - a\<close>. On the path where
  \<open>franc\<close> throws, \<open>reduce((a, b) => a[1] > b[1] ? a : b)\<close> keeps the later entry on a tie.
\<close>

definition francBonus :: "string \<Rightarrow> SupportedLanguage \<Rightarrow> real" where
  "francBonus detectedCode lang =
     (case lang of
        ENGLISH \<Rightarrow> (if detectedCode = ''eng'' then 0.4 else 0)
      | HINDI \<Rightarrow> (if detectedCode = ''hin'' then 0.4 else 0)
      | RAJASTHANI \<Rightarrow> 0)"

definition scoresWithHint :: "string \<Rightarrow> jsstring \<Rightarrow> (SupportedLanguage \<times> real) list" where
  "scoresWithHint detectedCode text =
     (let cleanText = trim (toLowerCase text)
      in map (\<lambda>lang. (lang, francBonus detectedCode lang
                              + real (scriptMatches lang text) * 0.3
                              + real (keywordMatches lang cleanText) * 0.7))
             [ENGLISH, HINDI, RAJASTHANI])"

definition sortedScores :: "string \<Rightarrow> jsstring \<Rightarrow> (SupportedLanguage \<times> real) list" where
  "sortedScores detectedCode text =
     map (\<lambda>(lang, score). (lang, min (score / 10) 1))
         (sort_key (\<lambda>(lang, score). - score) (scoresWithHint detectedCode text))"

definition scoresNoHint :: "jsstring \<Rightarrow> (SupportedLanguage \<times> real) list" where
  "scoresNoHint text =
     (let cleanText = trim (toLowerCase text)
      in map (\<lambda>lang. (lang, real (scriptMatches lang text) * 0.3
                              + real (keywordMatches lang cleanText) * 0.7))
             [ENGLISH, HINDI, RAJASTHANI])"

definition bestMatch :: "(SupportedLanguage \<times> real) list \<Rightarrow> SupportedLanguage \<times> real" where
  "bestMatch entries =
     (case entries of
        [] \<Rightarrow> (ENGLISH, 0)
      | e # es \<Rightarrow> foldl (\<lambda>a b. if snd a > snd b then a else b) e es)"

definition detectLanguage ::
  "(jsstring \<Rightarrow> string outcome) \<Rightarrow> jsstring \<Rightarrow> ILanguageDetectionResult" where
  "detectLanguage franc text =
     (if text = [] \<or> length (trim text) = 0
      then \<lparr>det_language = ENGLISH, det_confidence = 0.5, alternatives = None\<rparr>
      else
        (case franc text of
           Returned detectedCode \<Rightarrow>
             (case sortedScores detectedCode text of
                primaryResult # others \<Rightarrow>
                  (let alts = filter (\<lambda>result. snd result > 0.1) (take 2 others)
                   in if snd primaryResult < 0.2
                      then \<lparr>det_language = ENGLISH, det_confidence = 0.5,
                            alternatives = (if length alts > 0 then Some alts else None)\<rparr>
                      else \<lparr>det_language = fst primaryResult,
                            det_confidence = snd primaryResult,
                            alternatives = (if length alts > 0 then Some alts else None)\<rparr>)
              | [] \<Rightarrow> \<lparr>det_language = ENGLISH, det_confidence = 0.5, alternatives = None\<rparr>)
         | Thrown \<Rightarrow>
             (let best = bestMatch (scoresNoHint text)
              in \<lparr>det_language = fst best, det_confidence = min (snd best / 10) 1,
                   alternatives = None\<rparr>)))"

subsection \<open>The detector in double precision\<close>

text \<open>
  A JavaScript number is an IEEE 754 binary64 value, and every literal and every
  arithmetic operation yields the nearest such value, ties going to the even significand.
  \<open>roundDouble\<close> is this rounding on the real numbers: for a positive \<open>x\<close> with
  \<open>2 ^ e \<le> x < 2 ^ (e + 1)\<close> it rounds \<open>x / 2 ^ (e - 52)\<close>, a number between
  \<open>2 ^ 52\<close> and \<open>2 ^ 53\<close>, to the nearest integer, and scales back. Overflow and
  subnormal numbers are left out: the numbers of the detector are zero or lie between
  0.03 and the length of the text, and the search of the exponent covers
  \<open>2 ^ -2100\<close> to \<open>2 ^ 2100\<close>.
\<close>

definition pow2 :: "int \<Rightarrow> real" where
  "pow2 e = (if 0 \<le> e then 2 ^ nat e else 1 / 2 ^ nat (- e))"

fun binaryExponent :: "nat \<Rightarrow> int \<Rightarrow> real \<Rightarrow> int" where
  "binaryExponent 0 e x = e"
| "binaryExponent (Suc fuel) e x =
     (if x < pow2 e then binaryExponent fuel (e - 1) x
      else if pow2 (e + 1) \<le> x then binaryExponent fuel (e + 1) x
      else e)"

definition roundHalfEven :: "real \<Rightarrow> int" where
  "roundHalfEven y =
     (let f = \<lfloor>y\<rfloor>; r = y - of_int f
      in if r < 1 / 2 then f else if 1 / 2 < r then f + 1 else if even f then f else f + 1)"

definition roundPositive :: "real \<Rightarrow> real" where
  "roundPositive x =
     (let e = binaryExponent 2100 0 x
      in of_int (roundHalfEven (x / pow2 (e - 52))) * pow2 (e - 52))"

definition roundDouble :: "real \<Rightarrow> real" where
  "roundDouble x =
     (if x = 0 then 0 else if x < 0 then - roundPositive (- x) else roundPositive x)"

text \<open>
  The counts are integers below \<open>2 ^ 53\<close> and are doubles as they stand. A score is
  built by \<open>+=\<close> in two passes, so it is rounded after every product and every sum:
  \<open>(bonus + scriptMatches * 0.3) + keywordMatches * 0.7\<close>. The comparator \<open>b - a\<close> of two
  doubles has the sign of the exact difference, so the sort is again the stable sort by
  descending score. The comparisons with 0.1 and 0.2 are comparisons with the doubles
  nearest to these decimals. The lowering of the text is a parameter, as in the search.
\<close>

definition francBonusDouble :: "string \<Rightarrow> SupportedLanguage \<Rightarrow> real" where
  "francBonusDouble detectedCode lang =
     (case lang of
        ENGLISH \<Rightarrow> (if detectedCode = ''eng'' then roundDouble 0.4 else 0)
      | HINDI \<Rightarrow> (if detectedCode = ''hin'' then roundDouble 0.4 else 0)
      | RAJASTHANI \<Rightarrow> 0)"

definition scoresWithHintDouble ::
  "(jsstring \<Rightarrow> jsstring) \<Rightarrow> string \<Rightarrow> jsstring \<Rightarrow> (SupportedLanguage \<times> real) list" where
  "scoresWithHintDouble lower detectedCode text =
     (let cleanText = trim (lower text)
      in map (\<lambda>lang.
                (lang,
                 roundDouble
                   (roundDouble (francBonusDouble detectedCode lang
                                 + roundDouble (real (scriptMatches lang text) * roundDouble 0.3))
                    + roundDouble (real (keywordMatches lang cleanText) * roundDouble 0.7))))
             [ENGLISH, HINDI, RAJASTHANI])"

definition sortedScoresDouble ::
  "(jsstring \<Rightarrow> jsstring) \<Rightarrow> string \<Rightarrow> jsstring \<Rightarrow> (SupportedLanguage \<times> real) list" where
  "sortedScoresDouble lower detectedCode text =
     map (\<lambda>(lang, score). (lang, min (roundDouble (score / 10)) 1))
         (sort_key (\<lambda>(lang, score). - score) (scoresWithHintDouble lower detectedCode text))"

definition scoresNoHintDouble ::
  "(jsstring \<Rightarrow> jsstring) \<Rightarrow> jsstring \<Rightarrow> (SupportedLanguage \<times> real) list" where
  "scoresNoHintDouble lower text =
     (let cleanText = trim (lower text)
      in map (\<lambda>lang.
                (lang,
                 roundDouble
                   (0 + roundDouble
                          (roundDouble (real (scriptMatches lang text) * roundDouble 0.3)
                           + roundDouble (real (keywordMatches lang cleanText) * roundDouble 0.7)))))
             [ENGLISH, HINDI, RAJASTHANI])"

definition detectLanguageDouble ::
  "(jsstring \<Rightarrow> jsstring) \<Rightarrow> (jsstring \<Rightarrow> string outcome) \<Rightarrow> jsstring
     \<Rightarrow> ILanguageDetectionResult" where
  "detectLanguageDouble lower fr text =
     (if text = [] \<or> length (trim text) = 0
      then \<lparr>det_language = ENGLISH, det_confidence = 0.5, alternatives = None\<rparr>
      else
        (case fr text of
           Returned detectedCode \<Rightarrow>
             (case sortedScoresDouble lower detectedCode text of
                primaryResult # others \<Rightarrow>
                  (let alts = filter (\<lambda>result. snd result > roundDouble 0.1) (take 2 others)
                   in if snd primaryResult < roundDouble 0.2
                      then \<lparr>det_language = ENGLISH, det_confidence = 0.5,
                            alternatives = (if length alts > 0 then Some alts else None)\<rparr>
                      else \<lparr>det_language = fst primaryResult,
                            det_confidence = snd primaryResult,
                            alternatives = (if length alts > 0 then Some alts else None)\<rparr>)
              | [] \<Rightarrow> \<lparr>det_language = ENGLISH, det_confidence = 0.5, alternatives = None\<rparr>)
         | Thrown \<Rightarrow>
             (let best = bestMatch (scoresNoHintDouble lower text)
              in \<lparr>det_language = fst best, det_confidence = min (roundDouble (snd best / 10)) 1,
                   alternatives = None\<rparr>)))"

text \<open>
  The message tables are objects keyed by language and by message type. A lookup that
  finds nothing, or finds the empty string, is falsy and \<open>||\<close> moves on to the default.
\<close>

definition orElse :: "jsstring option \<Rightarrow> jsstring \<Rightarrow> jsstring" where
  "orElse v d = (case v of None \<Rightarrow> d | Some s \<Rightarrow> (if s = [] then d else s))"

definition greetings :: "(SupportedLanguage \<times> jsstring) list" where
  "greetings =
     [(ENGLISH, asc ''Hello! I'm your college assistant. How can I help you today?''),
      (HINDI,
       [2344, 2350, 2360, 2381, 2340, 2375, 33, 32, 2350, 2376, 2306, 32, 2310, 2346, 2325, 2366,
        32, 2325, 2377, 2354, 2375, 2332, 32, 2360, 2361, 2366, 2351, 2325, 32, 2361, 2370, 2305,
        2404, 32, 2310, 2332, 32, 2350, 2376, 2306, 32, 2310, 2346, 2325, 2368, 32, 2325, 2376,
        2360, 2375, 32, 2360, 2361, 2366, 2351, 2340, 2366, 32, 2325, 2352, 32, 2360, 2325, 2340,
        2366, 32, 2361, 2370, 2305, 63]),
      (RAJASTHANI,
       [2352, 2366, 2350, 32, 2352, 2366, 2350, 33, 32, 2361, 2370, 2305, 32, 2341, 2366, 2352,
        2379, 32, 2325, 2377, 2354, 2375, 2332, 32, 2360, 2361, 2366, 2351, 2325, 2404, 32, 2310,
        2332, 32, 2350, 2381, 2361, 2375, 32, 2341, 2366, 2352, 2368, 32, 2325, 2376, 2360, 2368,
        32, 2350, 2342, 2342, 32, 2325, 2352, 2339, 2368, 32, 2361, 2376, 63])]"

definition getGreeting :: "SupportedLanguage \<Rightarrow> jsstring" where
  "getGreeting lang =
     orElse (map_of greetings lang) (orElse (map_of greetings ENGLISH) [])"

definition errorMessages :: "(SupportedLanguage \<times> (string \<times> jsstring) list) list" where
  "errorMessages =
     [(ENGLISH,
       [(''general'', asc ''I'm sorry, I couldn't understand your question. Could you please rephrase it?''),
        (''noContext'', asc ''I don't have enough information to answer that question.''),
        (''technical'', asc ''I'm experiencing some technical difficulties. Please try again later.'')]),
      (HINDI,
       [(''general'',
         [2350, 2369, 2333, 2375, 32, 2326, 2369, 2358, 2368, 32, 2361, 2376, 32, 2325, 2367, 32,
          2310, 2346, 2344, 2375, 32, 2346, 2370, 2331, 2366, 44, 32, 2354, 2375, 2325, 2367, 2344,
          32, 2350, 2376, 2306, 32, 2310, 2346, 2325, 2366, 32, 2346, 2381, 2352, 2358, 2381, 2344,
          32, 2360, 2350, 2333, 32, 2344, 2361, 2368, 2306, 32, 2360, 2325, 2366, 2404, 32, 2325,
          2371, 2346, 2351, 2366, 32, 2311, 2360, 2375, 32, 2342, 2379, 2348, 2366, 2352, 2366, 32,
          2346, 2370, 2331, 2375, 2306, 2404]),
        (''noContext'',
         [2350, 2375, 2352, 2375, 32, 2346, 2366, 2360, 32, 2311, 2360, 32, 2346, 2381, 2352, 2358,
          2381, 2344, 32, 2325, 2366, 32, 2313, 2340, 2381, 2340, 2352, 32, 2342, 2375, 2344, 2375,
          32, 2325, 2375, 32, 2354, 2367, 2319, 32, 2346, 2352, 2381, 2351, 2366, 2346, 2381, 2340,
          32, 2332, 2366, 2344, 2325, 2366, 2352, 2368, 32, 2344, 2361, 2368, 2306, 32, 2361, 2376,
          2404]),
        (''technical'',
         [2350, 2369, 2333, 2375, 32, 2325, 2369, 2331, 32, 2340, 2325, 2344, 2368, 2325, 2368, 32,
          2360, 2350, 2360, 2381, 2351, 2366, 2319, 2306, 32, 2310, 32, 2352, 2361, 2368, 32, 2361,
          2376, 2306, 2404, 32, 2325, 2371, 2346, 2351, 2366, 32, 2348, 2366, 2342, 32, 2350, 2375,
          2306, 32, 2347, 2367, 2352, 32, 2325, 2379, 2358, 2367, 2358, 32, 2325, 2352, 2375, 2306,
          2404])]),
      (RAJASTHANI,
       [(''general'',
         [2350, 2381, 2361, 2375, 32, 2326, 2369, 2358, 2368, 32, 2361, 2376, 32, 2325, 2367, 32,
          2341, 2350, 2344, 2375, 32, 2346, 2370, 2331, 2381, 2351, 2379, 44, 32, 2346, 2339, 32,
          2350, 2381, 2361, 2375, 32, 2341, 2366, 2352, 2379, 32, 2360, 2357, 2366, 2354, 32, 2360,
          2350, 2333, 32, 2325, 2379, 2344, 2368, 32, 2310, 2351, 2379, 2404, 32, 2325, 2371, 2346,
          2351, 2366, 32, 2342, 2379, 2348, 2366, 2352, 2366, 32, 2346, 2370, 2331, 2379, 2404]),
        (''noContext'',
         [2350, 2381, 2361, 2366, 2352, 2375, 32, 2325, 2376, 2306, 32, 2311, 2360, 32, 2360, 2357,
          2366, 2354, 32, 2325, 2379, 32, 2332, 2357, 2366, 2348, 32, 2342, 2375, 2357, 2339, 32,
          2326, 2366, 2340, 2352, 32, 2325, 2366, 2347, 2368, 32, 2332, 2366, 2339, 2325, 2366,
          2352, 2368, 32, 2325, 2379, 2344, 2368, 32, 2361, 2376, 2404]),
        (''technical'',
         [2350, 2381, 2361, 2375, 32, 2325, 2369, 2331, 32, 2340, 2325, 2344, 2368, 2325, 2368, 32,
          2342, 2367, 2325, 2381, 2325, 2340, 32, 2310, 2357, 2376, 32, 2352, 2361, 2368, 32, 2361,
          2376, 2404, 32, 2325, 2371, 2346, 2351, 2366, 32, 2348, 2366, 2342, 32, 2350, 2375, 2306,
          32, 2347, 2367, 2352, 32, 2325, 2379, 2358, 2367, 2358, 32, 2325, 2352, 2379, 2404])])]"

definition errorLookup :: "SupportedLanguage \<Rightarrow> string \<Rightarrow> jsstring option" where
  "errorLookup lang errorType =
     (case map_of errorMessages lang of None \<Rightarrow> None | Some table \<Rightarrow> map_of table errorType)"

definition getErrorMessage :: "SupportedLanguage \<Rightarrow> string \<Rightarrow> jsstring" where
  "getErrorMessage lang errorType =
     orElse (errorLookup lang errorType)
       (orElse (errorLookup ENGLISH ''general'') (asc ''I'm sorry, something went wrong.''))"

section \<open>Composition (ragUtils.ts)\<close>

record IRAGResult =
  answer :: jsstring
  rag_context :: "jsstring list"
  rag_confidence :: real
  rag_sources :: "jsstring list"
  rag_language :: SupportedLanguage

text \<open>\<open>Array.prototype.join\<close> with a separator.\<close>

fun join :: "jsstring \<Rightarrow> jsstring list \<Rightarrow> jsstring" where
  "join sep [] = []"
| "join sep [x] = x"
| "join sep (x # y # ys) = x @ sep @ join sep (y # ys)"

text \<open>
  \<open>generateFallbackResponse\<close>: the template answer. Only \<open>context[0]\<close> enters the
  answer; the three templates are built and the one of the language is taken, the English
  one when the lookup is falsy.
\<close>

definition fallbackPrefixes :: "(SupportedLanguage \<times> jsstring) list" where
  "fallbackPrefixes =
     [(ENGLISH, asc ''Based on the information I have: ''),
      (HINDI,
       [2313, 2346, 2354, 2348, 2381, 2343, 32, 2332, 2366, 2344, 2325, 2366, 2352, 2368, 32,
        2325, 2375, 32, 2310, 2343, 2366, 2352, 32, 2346, 2352, 58, 32]),
      (RAJASTHANI,
       [2313, 2346, 2354, 2348, 2381, 2343, 32, 2332, 2366, 2339, 2325, 2366, 2352, 2368, 32,
        2325, 2375, 32, 2310, 2343, 2366, 2352, 32, 2346, 2352, 58, 32])]"

definition generateFallbackResponse ::
  "jsstring \<Rightarrow> jsstring list \<Rightarrow> SupportedLanguage \<Rightarrow> jsstring" where
  "generateFallbackResponse query ctx lang =
     (case ctx of
        [] \<Rightarrow> getErrorMessage lang ''noContext''
      | contextSummary # later \<Rightarrow>
          (let responses = map (\<lambda>(l, p). (l, p @ contextSummary)) fallbackPrefixes
           in orElse (map_of responses lang) (orElse (map_of responses ENGLISH) [])))"

text \<open>
  \<open>generateContextualResponse\<close>: the prompt goes to the text generation service; a
  generated text that is absent or empty, and a call that throws, both fall back to the
  template. Nothing else in the outer \<open>try\<close> block raises, so its \<open>catch\<close> (the
  technical message) has no branch here.
\<close>

definition buildPrompt :: "jsstring \<Rightarrow> jsstring list \<Rightarrow> jsstring" where
  "buildPrompt query ctx =
     asc ''Context: '' @ join [10, 10] ctx @ [10, 10] @ asc ''Question: '' @ query
       @ [10, 10] @ asc ''Answer:''"

definition generateContextualResponse ::
  "(jsstring \<Rightarrow> jsstring outcome) \<Rightarrow> jsstring \<Rightarrow> jsstring list \<Rightarrow> SupportedLanguage \<Rightarrow> jsstring"
  where
  "generateContextualResponse textGeneration query ctx lang =
     (case textGeneration (buildPrompt query ctx) of
        Returned generated_text \<Rightarrow>
          (if generated_text \<noteq> [] then generated_text
           else generateFallbackResponse query ctx lang)
      | Thrown \<Rightarrow> generateFallbackResponse query ctx lang)"

text \<open>
  \<open>processRAGQuery\<close>. The language is the caller's when one is given, the detected one
  otherwise. With no relevant document the function returns at once, with confidence 0.1;
  otherwise the confidence is \<open>Math.min(0.3 + relevantDocs.length * 0.2, 0.9)\<close>. The calls
  in the \<open>try\<close> block absorb their own failures, so the \<open>catch\<close> of this function has
  no branch here.
\<close>

definition processRAGQuery ::
  "(jsstring \<Rightarrow> string outcome) \<Rightarrow> (jsstring \<Rightarrow> jsstring outcome) \<Rightarrow> IDocumentChunk list
     \<Rightarrow> jsstring \<Rightarrow> SupportedLanguage option \<Rightarrow> IRAGResult" where
  "processRAGQuery franc textGeneration collegeDocuments query userLanguage =
     (let detectedLanguage =
            (case userLanguage of Some l \<Rightarrow> l | None \<Rightarrow> det_language (detectLanguage franc query));
          relevantDocs = searchDocuments collegeDocuments query detectedLanguage
      in if length relevantDocs = 0
         then \<lparr>answer = getErrorMessage detectedLanguage ''noContext'', rag_context = [],
               rag_confidence = 0.1, rag_sources = [], rag_language = detectedLanguage\<rparr>
         else
           (let ctx = map content relevantDocs;
                srcs = map (\<lambda>doc. source (metadata doc)) relevantDocs;
                ans = generateContextualResponse textGeneration query ctx detectedLanguage;
                confidence = min (0.3 + real (length relevantDocs) * 0.2) 0.9
            in \<lparr>answer = ans, rag_context = ctx, rag_confidence = confidence,
                 rag_sources = srcs, rag_language = detectedLanguage\<rparr>))"

section \<open>The chat controller (chatController.ts) and its route (chatRoutes.ts)\<close>

text \<open>
  The persisted exchange, a document of the \<open>ChatMessage\<close> collection. Mongoose adds
  an identifier and the two timestamps; no function here reads them.
\<close>

record ChatMessage =
  cm_userId :: jsstring
  cm_message :: jsstring
  cm_response :: jsstring
  cm_language :: SupportedLanguage
  cm_confidence :: real
  cm_responseTime :: nat
  cm_isFromRAG :: bool
  cm_context :: "jsstring list"
  cm_sessionId :: jsstring

text \<open>
  The request as the handler sees it: the authenticated user's identifier when there is
  one, the body, and the errors that the validation chain of the route has recorded.
\<close>

record ChatRequest =
  user :: "jsstring option"
  message :: jsstring
  req_language :: "SupportedLanguage option"
  sessionId :: "jsstring option"
  validationErrors :: "string list"

text \<open>
  \<open>validateChatMessage\<close> of the route: the message is trimmed (the sanitizer rewrites
  the body) and must then have 1 to 1000 characters; a language, when present, must be one
  of the enumeration, which the type already says; a session id, when present, must have
  10 to 50 characters. Lengths are counted in code units; the validator counts a
  surrogate pair as one character, so the two agree on every text of the Basic
  Multilingual Plane.
\<close>

definition validateChatMessage :: "ChatRequest \<Rightarrow> ChatRequest" where
  "validateChatMessage req =
     (let m = trim (message req);
          e1 = (if 1 \<le> length m \<and> length m \<le> 1000 then []
                else [''Message must be between 1 and 1000 characters'']);
          e2 = (case sessionId req of
                  None \<Rightarrow> []
                | Some sid \<Rightarrow> (if 10 \<le> length sid \<and> length sid \<le> 50 then []
                               else [''Invalid session ID format'']))
      in req\<lparr>message := m, validationErrors := validationErrors req @ e1 @ e2\<rparr>)"

text \<open>
  What the handler gets from outside: the two external services, the outcome of
  \<open>chatMessage.save()\<close> and of \<open>ChatMessage.deleteMany\<close>, the value of the next
  \<open>generateSessionId()\<close>, and the clock readings \<open>Date.now() - startTime\<close> taken for the
  stored document and for the reply.
\<close>

record Env =
  franc :: "jsstring \<Rightarrow> string outcome"
  textGeneration :: "jsstring \<Rightarrow> jsstring outcome"
  saveSucceeds :: "ChatMessage \<Rightarrow> bool"
  deleteManySucceeds :: bool
  generateSessionId :: jsstring
  elapsedAtSave :: nat
  elapsedAtReply :: nat

record ChatReply =
  success :: bool
  response :: jsstring
  reply_language :: SupportedLanguage
  confidence :: real
  responseTime :: nat
  reply_sessionId :: jsstring
  reply_sources :: "jsstring list option"

text \<open>
  The handler ends either in \<open>res.status(200).json(...)\<close> or in \<open>next(new AppError(...))\<close>,
  which the error middleware turns into an error response with that status.
\<close>

datatype HttpResult = Json200 ChatReply | NextAppError string nat

text \<open>
  The greeting test \<open>/^(hi|hello|hey|namaste|...|...)/i.test(message.trim())\<close>. The last two
  alternatives are written here as the code units that the source file holds. The flag
  \<open>i\<close> compares code units after ECMAScript's Canonicalize, which maps a unit to its
  upper-case form; \<open>canonicalize\<close> does so for Basic Latin and Latin-1, which decides every
  comparison with a unit of this pattern. The pattern is anchored at the start only.
\<close>

definition canonicalize :: "nat \<Rightarrow> nat" where
  "canonicalize c =
     (if (97 \<le> c \<and> c \<le> 122) \<or> (224 \<le> c \<and> c \<le> 254 \<and> c \<noteq> 247) then c - 32 else c)"

definition greetingAlternatives :: "jsstring list" where
  "greetingAlternatives =
     [asc ''hi'', asc ''hello'', asc ''hey'', asc ''namaste'',
      [8225, 167, 8734, 8225, 167, 230, 8225, 167, 198, 32, 8225, 167, 8734, 8225, 167, 230,
       8225, 167, 198],
      [8225, 167, 174, 8225, 167, 198, 8225, 167, 8719, 8225, 8226, 231, 8225, 167, 167, 8225,
       8226, 225]]"

definition isGreeting :: "jsstring \<Rightarrow> bool" where
  "isGreeting s =
     list_ex (\<lambda>alt. prefix (map canonicalize alt) (map canonicalize s)) greetingAlternatives"

definition userIdOf :: "ChatRequest \<Rightarrow> jsstring" where
  "userIdOf req = orElse (user req) (asc ''anonymous'')"

definition sessionIdOf :: "Env \<Rightarrow> ChatRequest \<Rightarrow> jsstring" where
  "sessionIdOf env req = orElse (sessionId req) (generateSessionId env)"

text \<open>
  The language of the turn: the caller's when the body names one, the detected one
  otherwise (\<open>let detectedLanguage = language; if (!language) ...\<close>).
\<close>

definition resolveLanguage :: "Env \<Rightarrow> ChatRequest \<Rightarrow> SupportedLanguage" where
  "resolveLanguage env req =
     (case req_language req of
        Some l \<Rightarrow> l
      | None \<Rightarrow> det_language (detectLanguage (franc env) (message req)))"

text \<open>
  \<open>processChatMessage\<close>, on the collection \<open>db\<close> of stored exchanges. A \<open>save\<close> that
  throws is caught by the handler's \<open>catch\<close>, which answers with the 500 error; the
  collection is then unchanged.
\<close>

definition persistAndReply ::
  "Env \<Rightarrow> ChatMessage list \<Rightarrow> ChatMessage \<Rightarrow> ChatReply \<Rightarrow> ChatMessage list \<times> HttpResult" where
  "persistAndReply env db chatMessage reply =
     (if saveSucceeds env chatMessage then (db @ [chatMessage], Json200 reply)
      else (db, NextAppError ''Failed to process chat message'' 500))"

definition processChatMessage ::
  "Env \<Rightarrow> IDocumentChunk list \<Rightarrow> ChatMessage list \<Rightarrow> ChatRequest
     \<Rightarrow> ChatMessage list \<times> HttpResult" where
  "processChatMessage env collegeDocuments db req =
     (if validationErrors req \<noteq> [] then (db, NextAppError ''Validation failed'' 400)
      else
        (let userId = userIdOf req;
             detectedLanguage = resolveLanguage env req
         in if isGreeting (trim (message req))
            then
              (let greeting = getGreeting detectedLanguage;
                   chatMessage =
                     \<lparr>cm_userId = userId, cm_message = trim (message req),
                      cm_response = greeting, cm_language = detectedLanguage,
                      cm_confidence = 0.9, cm_responseTime = elapsedAtSave env,
                      cm_isFromRAG = False, cm_context = [],
                      cm_sessionId = sessionIdOf env req\<rparr>
               in persistAndReply env db chatMessage
                    \<lparr>success = True, response = greeting, reply_language = detectedLanguage,
                     confidence = 0.9, responseTime = elapsedAtReply env,
                     reply_sessionId = cm_sessionId chatMessage, reply_sources = None\<rparr>)
            else
              (let ragResult = processRAGQuery (franc env) (textGeneration env) collegeDocuments
                                 (message req) (Some detectedLanguage);
                   chatMessage =
                     \<lparr>cm_userId = userId, cm_message = trim (message req),
                      cm_response = answer ragResult, cm_language = rag_language ragResult,
                      cm_confidence = rag_confidence ragResult,
                      cm_responseTime = elapsedAtSave env,
                      cm_isFromRAG = True, cm_context = rag_context ragResult,
                      cm_sessionId = sessionIdOf env req\<rparr>
               in persistAndReply env db chatMessage
                    \<lparr>success = True, response = answer ragResult,
                     reply_language = rag_language ragResult,
                     confidence = rag_confidence ragResult, responseTime = elapsedAtReply env,
                     reply_sessionId = cm_sessionId chatMessage,
                     reply_sources = Some (rag_sources ragResult)\<rparr>)))"

text \<open>The route: the validation chain runs first, then the handler.\<close>

definition postMessage ::
  "Env \<Rightarrow> IDocumentChunk list \<Rightarrow> ChatMessage list \<Rightarrow> ChatRequest
     \<Rightarrow> ChatMessage list \<times> HttpResult" where
  "postMessage env collegeDocuments db req =
     processChatMessage env collegeDocuments db (validateChatMessage req)"

text \<open>
  \<open>clearChatHistory\<close>, for the authenticated user \<open>userId\<close>. The delete query always
  holds the user; it holds the session only when \<open>sessionId\<close> is truthy, that is present
  and not the empty string. The handler does not read the validation result.
  \<open>deleteMany\<close> removes every document that matches the query and reports how many.
\<close>

record DeleteQuery =
  q_userId :: jsstring
  q_sessionId :: "jsstring option"

definition matchesQuery :: "DeleteQuery \<Rightarrow> ChatMessage \<Rightarrow> bool" where
  "matchesQuery q m =
     (cm_userId m = q_userId q \<and>
      (case q_sessionId q of None \<Rightarrow> True | Some sid \<Rightarrow> cm_sessionId m = sid))"

definition deleteMany :: "DeleteQuery \<Rightarrow> ChatMessage list \<Rightarrow> ChatMessage list \<times> nat" where
  "deleteMany q db = (filter (\<lambda>m. \<not> matchesQuery q m) db, length (filter (matchesQuery q) db))"

datatype ClearResult = Cleared string nat | ClearFailed string nat

definition clearChatHistory ::
  "Env \<Rightarrow> ChatMessage list \<Rightarrow> jsstring \<Rightarrow> jsstring option \<Rightarrow> ChatMessage list \<times> ClearResult"
  where
  "clearChatHistory env db userId sid =
     (let truthy = (case sid of None \<Rightarrow> False | Some s \<Rightarrow> s \<noteq> []);
          deleteQuery = \<lparr>q_userId = userId, q_sessionId = (if truthy then sid else None)\<rparr>
      in if deleteManySucceeds env
         then (let (db', deletedCount) = deleteMany deleteQuery db
               in (db', Cleared (if truthy then ''Session history cleared successfully''
                                 else ''Chat history cleared successfully'') deletedCount))
         else (db, ClearFailed ''Failed to clear chat history'' 500))"

section \<open>The sample documents (ragUtils.ts, collegeDocuments)\<close>

text \<open>The six documents that the store holds when the module is loaded.\<close>

definition doc_admission_en :: "IDocumentChunk" where
  "doc_admission_en =
     \<lparr>doc_id = asc ''admission-en'',
      content = asc ''College admission process requires completion of application form, submission of academic transcripts, and entrance exam scores. The admission committee reviews applications based on merit and availability of seats.'',
      metadata = \<lparr>source = asc ''admission-guidelines'', language = ENGLISH, category = asc ''admission'',
                  lastUpdated = 1705276800000\<rparr>\<rparr>"

definition doc_fees_en :: "IDocumentChunk" where
  "doc_fees_en =
     \<lparr>doc_id = asc ''fees-en'',
      content = asc ''Annual tuition fees are $5000 for undergraduate programs and $7000 for graduate programs. Payment can be made in installments. Scholarships are available for meritorious students.'',
      metadata = \<lparr>source = asc ''fee-structure'', language = ENGLISH, category = asc ''fees'',
                  lastUpdated = 1706745600000\<rparr>\<rparr>"

definition doc_library_en :: "IDocumentChunk" where
  "doc_library_en =
     \<lparr>doc_id = asc ''library-en'',
      content = asc ''The college library is open from 8 AM to 10 PM on weekdays and 9 AM to 6 PM on weekends. Students can borrow up to 5 books at a time. Digital resources are available 24/7.'',
      metadata = \<lparr>source = asc ''library-rules'', language = ENGLISH, category = asc ''facilities'',
                  lastUpdated = 1705708800000\<rparr>\<rparr>"

definition doc_admission_hi :: "IDocumentChunk" where
  "doc_admission_hi =
     \<lparr>doc_id = asc ''admission-hi'',
      content = [2325, 2377, 2354, 2375, 2332, 32, 2350, 2375, 2306, 32, 2346, 2381, 2352,
                 2357, 2375, 2358, 32, 2325, 2375, 32, 2354, 2367, 2319, 32, 2310, 2357, 2375,
                 2342, 2344, 32, 2346, 2340, 2381, 2352, 32, 2349, 2352, 2344, 2366, 44, 32,
                 2358, 2376, 2325, 2381, 2359, 2339, 2367, 2325, 32, 2346, 2381, 2352, 2350,
                 2366, 2339, 32, 2346, 2340, 2381, 2352, 32, 2332, 2350, 2366, 32, 2325, 2352,
                 2344, 2366, 32, 2324, 2352, 32, 2346, 2381, 2352, 2357, 2375, 2358, 32, 2346,
                 2352, 2368, 2325, 2381, 2359, 2366, 32, 2325, 2375, 32, 2309, 2306, 2325, 32,
                 2310, 2357, 2358, 2381, 2351, 2325, 32, 2361, 2376, 2306, 2404, 32, 2346,
                 2381, 2352, 2357, 2375, 2358, 32, 2360, 2350, 2367, 2340, 2367, 32, 2351,
                 2379, 2327, 2381, 2351, 2340, 2366, 32, 2324, 2352, 32, 2360, 2368, 2335,
                 2379, 2306, 32, 2325, 2368, 32, 2313, 2346, 2354, 2348, 2381, 2343, 2340,
                 2366, 32, 2325, 2375, 32, 2310, 2343, 2366, 2352, 32, 2346, 2352, 32, 2310,
                 2357, 2375, 2342, 2344, 2379, 2306, 32, 2325, 2368, 32, 2360, 2350, 2368,
                 2325, 2381, 2359, 2366, 32, 2325, 2352, 2340, 2368, 32, 2361, 2376, 2404],
      metadata = \<lparr>source = asc ''admission-guidelines-hindi'', language = HINDI, category = asc ''admission'',
                  lastUpdated = 1705276800000\<rparr>\<rparr>"

definition doc_fees_hi :: "IDocumentChunk" where
  "doc_fees_hi =
     \<lparr>doc_id = asc ''fees-hi'',
      content = [2360, 2381, 2344, 2366, 2340, 2325, 32, 2325, 2366, 2352, 2381, 2351, 2325,
                 2381, 2352, 2350, 2379, 2306, 32, 2325, 2375, 32, 2354, 2367, 2319, 32, 2357,
                 2366, 2352, 2381, 2359, 2367, 2325, 32, 2358, 2367, 2325, 2381, 2359, 2366,
                 32, 2358, 2369, 2354, 2381, 2325, 32, 8377, 53, 48, 44, 48, 48, 48, 32, 2324,
                 2352, 32, 2360, 2381, 2344, 2366, 2340, 2325, 2379, 2340, 2381, 2340, 2352,
                 32, 2325, 2366, 2352, 2381, 2351, 2325, 2381, 2352, 2350, 2379, 2306, 32,
                 2325, 2375, 32, 2354, 2367, 2319, 32, 8377, 55, 48, 44, 48, 48, 48, 32, 2361,
                 2376, 2404, 32, 2349, 2369, 2327, 2340, 2366, 2344, 32, 2325, 2367, 2358,
                 2381, 2340, 2379, 2306, 32, 2350, 2375, 2306, 32, 2325, 2367, 2351, 2366, 32,
                 2332, 2366, 32, 2360, 2325, 2340, 2366, 32, 2361, 2376, 2404, 32, 2350, 2375,
                 2343, 2366, 2357, 2368, 32, 2331, 2366, 2340, 2381, 2352, 2379, 2306, 32,
                 2325, 2375, 32, 2354, 2367, 2319, 32, 2331, 2366, 2340, 2381, 2352, 2357,
                 2371, 2340, 2381, 2340, 2367, 32, 2313, 2346, 2354, 2348, 2381, 2343, 32,
                 2361, 2376, 2404],
      metadata = \<lparr>source = asc ''fee-structure-hindi'', language = HINDI, category = asc ''fees'',
                  lastUpdated = 1706745600000\<rparr>\<rparr>"

definition doc_library_raj :: "IDocumentChunk" where
  "doc_library_raj =
     \<lparr>doc_id = asc ''library-raj'',
      content = [2325, 2377, 2354, 2375, 2332, 32, 2352, 2368, 32, 2354, 2366, 2311, 2348,
                 2381, 2352, 2375, 2352, 2368, 32, 2360, 2379, 2350, 2357, 2366, 2352, 32,
                 2360, 2370, 2306, 32, 2358, 2369, 2325, 2381, 2352, 2357, 2366, 2352, 32,
                 2360, 2357, 2375, 2352, 2375, 32, 56, 32, 2348, 2332, 2375, 32, 2360, 2370,
                 2306, 32, 2352, 2366, 2340, 32, 49, 48, 32, 2348, 2332, 2375, 32, 2340, 2325,
                 32, 2309, 2352, 32, 2358, 2344, 2367, 2357, 2366, 2352, 45, 2352, 2357, 2367,
                 2357, 2366, 2352, 32, 2360, 2357, 2375, 2352, 2375, 32, 57, 32, 2348, 2332,
                 2375, 32, 2360, 2370, 2306, 32, 2358, 2366, 2350, 32, 54, 32, 2348, 2332,
                 2375, 32, 2340, 2325, 32, 2326, 2369, 2354, 2368, 32, 2352, 2376, 2357, 2376,
                 32, 2361, 2376, 2404, 32, 2331, 2366, 2340, 2381, 2352, 32, 2319, 2325, 32,
                 2348, 2366, 2352, 2368, 32, 2350, 2376, 2306, 32, 53, 32, 2325, 2367, 2340,
                 2366, 2348, 2366, 2306, 32, 2354, 2375, 32, 2360, 2325, 2376, 32, 2361, 2376,
                 2306, 2404],
      metadata = \<lparr>source = asc ''library-rules-rajasthani'', language = RAJASTHANI, category = asc ''facilities'',
                  lastUpdated = 1705708800000\<rparr>\<rparr>"

definition collegeDocuments0 :: "IDocumentChunk list" where
  "collegeDocuments0 =
     [doc_admission_en, doc_fees_en, doc_library_en, doc_admission_hi, doc_fees_hi, doc_library_raj]"

section \<open>Auxiliary definitions\<close>

text \<open>
  The documents that a search scores: those of the requested language, or the English
  ones when there is none.
\<close>

definition searchPool :: "IDocumentChunk list \<Rightarrow> SupportedLanguage \<Rightarrow> IDocumentChunk list" where
  "searchPool docs lang =
     (if filter (\<lambda>doc. language (metadata doc) = lang) docs \<noteq> []
      then filter (\<lambda>doc. language (metadata doc) = lang) docs
      else filter (\<lambda>doc. language (metadata doc) = ENGLISH) docs)"

text \<open>
  The score that the code computes, as a count over the pieces of the split, and the
  number of empty pieces among them. An empty piece occurs in every content.
\<close>

definition pieceScore ::
  "(jsstring \<Rightarrow> jsstring) \<Rightarrow> jsstring \<Rightarrow> IDocumentChunk \<Rightarrow> nat" where
  "pieceScore lower query doc =
     length (filter (\<lambda>piece. sublist piece (lower (content doc)))
                    (splitWhiteSpace (lower query)))"

definition emptyPieces :: "(jsstring \<Rightarrow> jsstring) \<Rightarrow> jsstring \<Rightarrow> nat" where
  "emptyPieces lower query =
     length (filter (\<lambda>piece. piece = []) (splitWhiteSpace (lower query)))"

text \<open>
  Environments for concrete runs: \<open>franc\<close> answers \<open>eng\<close> or \<open>und\<close>, the text
  generation service is unreachable, and the database either accepts every write
  (\<open>envUp\<close>) or rejects every write (\<open>envDbDown\<close>).
\<close>

definition francEng :: "jsstring \<Rightarrow> string outcome" where
  "francEng text = Returned ''eng''"

definition francUnd :: "jsstring \<Rightarrow> string outcome" where
  "francUnd text = Returned ''und''"

definition francHin :: "jsstring \<Rightarrow> string outcome" where
  "francHin text = Returned ''hin''"

definition generationDown :: "jsstring \<Rightarrow> jsstring outcome" where
  "generationDown prompt = Thrown"

definition accepts :: "ChatMessage \<Rightarrow> bool" where
  "accepts m = True"

definition rejects :: "ChatMessage \<Rightarrow> bool" where
  "rejects m = False"

definition envUp :: Env where
  "envUp =
     \<lparr>franc = francEng, textGeneration = generationDown, saveSucceeds = accepts,
      deleteManySucceeds = True, generateSessionId = asc ''session_1700000000000_k3x9q2m1z'',
      elapsedAtSave = 12, elapsedAtReply = 15\<rparr>"

definition envDbDown :: Env where
  "envDbDown =
     \<lparr>franc = francEng, textGeneration = generationDown, saveSucceeds = rejects,
      deleteManySucceeds = False, generateSessionId = asc ''session_1700000000000_k3x9q2m1z'',
      elapsedAtSave = 12, elapsedAtReply = 15\<rparr>"

text \<open>A request body with a message and, optionally, a language; no user, no session.\<close>

definition anonymousRequest :: "jsstring \<Rightarrow> SupportedLanguage option \<Rightarrow> ChatRequest" where
  "anonymousRequest m l =
     \<lparr>user = None, message = m, req_language = l, sessionId = None, validationErrors = []\<rparr>"

text \<open>The Hindi greeting word, in Devanagari (six code units).\<close>

definition namasteHindi :: jsstring where
  "namasteHindi = [2344, 2350, 2360, 2381, 2340, 2375]"

text \<open>A stored exchange of a given user in a given session.\<close>

definition exchangeOf :: "jsstring \<Rightarrow> jsstring \<Rightarrow> ChatMessage" where
  "exchangeOf u s =
     \<lparr>cm_userId = u, cm_message = asc ''hello'', cm_response = getGreeting ENGLISH,
      cm_language = ENGLISH, cm_confidence = 0.9, cm_responseTime = 12, cm_isFromRAG = False,
      cm_context = [], cm_sessionId = s\<rparr>"

text \<open>
  The score of a language without the bonus of the hint: 0.3 for every code unit of its
  script and 0.7 for every keyword that the cleaned text includes.
\<close>

definition plainScore :: "SupportedLanguage \<Rightarrow> jsstring \<Rightarrow> real" where
  "plainScore lang text =
     real (scriptMatches lang text) * 0.3
     + real (keywordMatches lang (trim (toLowerCase text))) * 0.7"

text \<open>
  The code units that the keywords of a language are written in: the small Latin letters
  for English, the Devanagari block for Hindi and Rajasthani.
\<close>

definition wordUnit :: "SupportedLanguage \<Rightarrow> nat \<Rightarrow> bool" where
  "wordUnit lang c =
     (case lang of ENGLISH \<Rightarrow> 97 \<le> c \<and> c \<le> 122 | HINDI \<Rightarrow> 2304 \<le> c \<and> c \<le> 2431
      | RAJASTHANI \<Rightarrow> 2304 \<le> c \<and> c \<le> 2431)"

section \<open>Evaluation of the string functions and of the sample store\<close>

lemmas string_defs = asc_def toLowerCase_def lowerUnit_def splitWhiteSpace_def isWhiteSpace_def

lemmas sample_defs = doc_admission_en_def doc_fees_en_def doc_library_en_def
  doc_admission_hi_def doc_fees_hi_def doc_library_raj_def

lemma english_pool:
  "filter (\<lambda>doc. language (metadata doc) = ENGLISH) collegeDocuments0
     = [doc_admission_en, doc_fees_en, doc_library_en]"
  by (simp add: collegeDocuments0_def sample_defs)

lemma words_library_hours:
  "splitWhiteSpace (toLowerCase (asc ''library hours'')) = [asc ''library'', asc ''hours'']"
  by (simp add: string_defs)

lemma score_library_hours:
  "docScore [asc ''library'', asc ''hours''] doc_admission_en = 0"
  "docScore [asc ''library'', asc ''hours''] doc_fees_en = 0"
  "docScore [asc ''library'', asc ''hours''] doc_library_en = 1"
  by (simp_all add: docScore_def string_defs sample_defs)

lemma search_library_hours:
  "searchDocuments collegeDocuments0 (asc ''library hours'') ENGLISH = [doc_library_en]"
  by (simp add: searchDocuments_def english_pool words_library_hours score_library_hours)

lemma words_gibberish:
  "splitWhiteSpace (toLowerCase (asc ''asdkjasdlk random gibberish''))
     = [asc ''asdkjasdlk'', asc ''random'', asc ''gibberish'']"
  by (simp add: string_defs)

lemma score_gibberish:
  "docScore [asc ''asdkjasdlk'', asc ''random'', asc ''gibberish''] doc_admission_en = 0"
  "docScore [asc ''asdkjasdlk'', asc ''random'', asc ''gibberish''] doc_fees_en = 0"
  "docScore [asc ''asdkjasdlk'', asc ''random'', asc ''gibberish''] doc_library_en = 0"
  by (simp_all add: docScore_def string_defs sample_defs)

lemma search_gibberish:
  "searchDocuments collegeDocuments0 (asc ''asdkjasdlk random gibberish'') ENGLISH = []"
  by (simp add: searchDocuments_def english_pool words_gibberish score_gibberish)

section \<open>Properties of the retrieval\<close>

lemma includes_iff_sublist: "includes_js s w \<longleftrightarrow> sublist w s"
  by (induction s) (auto simp: sublist_Cons_right)

lemma foldl_count:
  "foldl (\<lambda>acc x. acc + (if P x then 1 else 0)) (n::nat) xs = n + length (filter P xs)"
  by (induction xs arbitrary: n) auto

text \<open>The \<open>reduce\<close> of the source counts the pieces of the split that the content holds.\<close>

lemma docScoreWith_pieceScore:
  "docScoreWith lower (splitWhiteSpace (lower query)) doc = pieceScore lower query doc"
  by (simp add: docScoreWith_def pieceScore_def foldl_count includes_iff_sublist)

lemma searchDocuments_with:
  "searchDocuments docs query lang = searchDocumentsWith toLowerCase docs query lang"
  by (simp add: searchDocuments_def searchDocumentsWith_def docScore_def docScoreWith_def)

lemma searchDocumentsWith_alt:
  "searchDocumentsWith lower docs query lang =
     map fst (take 3 (sort_key (\<lambda>item. - int (snd item))
       (filter (\<lambda>item. snd item > 0)
          (map (\<lambda>doc. (doc, pieceScore lower query doc)) (searchPool docs lang)))))"
  by (simp add: searchDocumentsWith_def searchPool_def Let_def docScoreWith_pieceScore)

lemma searchDocumentsWith_subset:
  "set (searchDocumentsWith lower docs query lang)
     \<subseteq> {d \<in> set (searchPool docs lang). pieceScore lower query d > 0}"
proof
  fix d
  assume "d \<in> set (searchDocumentsWith lower docs query lang)"
  then obtain item where
    i: "item \<in> set (take 3 (sort_key (\<lambda>item. - int (snd item))
          (filter (\<lambda>item. snd item > 0)
             (map (\<lambda>doc. (doc, pieceScore lower query doc)) (searchPool docs lang)))))"
    and d: "d = fst item"
    unfolding searchDocumentsWith_alt by auto
  from i have "item \<in> set (filter (\<lambda>item. snd item > 0)
          (map (\<lambda>doc. (doc, pieceScore lower query doc)) (searchPool docs lang)))"
    by (auto dest: in_set_takeD)
  with d show "d \<in> {d \<in> set (searchPool docs lang). pieceScore lower query d > 0}"
    by auto
qed

lemma searchPool_language:
  "d \<in> set (searchPool docs lang) \<Longrightarrow>
   language (metadata d)
     = (if list_ex (\<lambda>doc. language (metadata doc) = lang) docs then lang else ENGLISH)"
  by (auto simp: searchPool_def list_ex_iff filter_empty_conv split: if_splits)

lemma sorted_scored:
  assumes "\<forall>item \<in> set xs. snd item = f (fst item)"
  shows "sorted_wrt (\<lambda>a b. f b \<le> f a)
           (map fst (take n (sort_key (\<lambda>item. - int (snd item)) xs)))"
proof -
  let ?ys = "sort_key (\<lambda>item. - int (snd item)) xs"
  have "sorted (map (\<lambda>item. - int (snd item)) ?ys)"
    by (rule sorted_sort_key)
  then have "sorted_wrt (\<lambda>a b. - int (snd a) \<le> - int (snd b)) ?ys"
    by (simp add: sorted_map)
  then have "sorted_wrt (\<lambda>a b. f (fst b) \<le> f (fst a)) ?ys"
  proof (rule sorted_wrt_mono_rel [rotated])
    fix a b
    assume "a \<in> set ?ys" "b \<in> set ?ys" "- int (snd a) \<le> - int (snd b)"
    then show "f (fst b) \<le> f (fst a)"
      using assms by (metis set_sort neg_le_iff_le of_nat_le_iff)
  qed
  then have "sorted_wrt (\<lambda>a b. f (fst b) \<le> f (fst a)) (take n ?ys)"
    by (rule sorted_wrt_take)
  then show ?thesis
    by (simp add: sorted_wrt_map)
qed

text \<open>
  C4. For every store, query \<open>q\<close> and language \<open>L\<close>, the search returns at most three
  chunks; every returned chunk has language \<open>L\<close> when the store holds a chunk of
  language \<open>L\<close>, and language ENGLISH when it holds none.
\<close>

theorem search_at_most_three_in_language:
  "length (searchDocuments docs query lang) \<le> 3 \<and>
   (\<forall>d \<in> set (searchDocuments docs query lang).
      language (metadata d) =
        (if list_ex (\<lambda>doc. language (metadata doc) = lang) docs then lang else ENGLISH))"
proof
  show "length (searchDocuments docs query lang) \<le> 3"
    by (simp add: searchDocuments_with searchDocumentsWith_alt)
  show "\<forall>d \<in> set (searchDocuments docs query lang).
      language (metadata d) =
        (if list_ex (\<lambda>doc. language (metadata doc) = lang) docs then lang else ENGLISH)"
    using searchDocumentsWith_subset [of toLowerCase docs query lang]
      searchPool_language [of _ docs lang]
    unfolding searchDocuments_with by blast
qed

text \<open>
  The sample store, asked for "library hours" in English, returns the one library chunk,
  which is English.
\<close>

theorem search_at_most_three_in_language_witness:
  "searchDocuments collegeDocuments0 (asc ''library hours'') ENGLISH = [doc_library_en]
   \<and> length (searchDocuments collegeDocuments0 (asc ''library hours'') ENGLISH) \<le> 3
   \<and> language (metadata doc_library_en) = ENGLISH"
  using search_at_most_three_in_language [of collegeDocuments0 "asc ''library hours''" ENGLISH]
  by (simp add: search_library_hours)

subsection \<open>Pieces of the split and tokens\<close>

text \<open>
  The tokens of a string are the pieces of its split that are not empty. The split
  leaves an empty piece for white space at the start and at the end of the string, and
  for the empty string; it leaves none when the string is not empty and neither begins
  nor ends with white space.
\<close>

lemma filter_splitAux:
  "(inRun \<longrightarrow> cur = []) \<Longrightarrow>
   filter (\<lambda>piece. piece \<noteq> []) (splitAux inRun cur s) = tokenAux cur s"
  by (induction s arbitrary: inRun cur) auto

lemma tokens_split: "tokens s = filter (\<lambda>piece. piece \<noteq> []) (splitWhiteSpace s)"
  by (simp add: tokens_def splitWhiteSpace_def filter_splitAux)

lemma no_empty_piece_aux:
  assumes "inRun \<or> cur \<noteq> [] \<or> (s \<noteq> [] \<and> \<not> isWhiteSpace (hd s))"
    and "if s = [] then cur \<noteq> [] else \<not> isWhiteSpace (last s)"
  shows "[] \<notin> set (splitAux inRun cur s)"
  using assms
proof (induction s arbitrary: inRun cur)
  case Nil
  then show ?case by simp
next
  case (Cons c cs)
  show ?case
  proof (cases "isWhiteSpace c")
    case True
    with Cons.prems have cs: "cs \<noteq> []" "\<not> isWhiteSpace (last cs)"
      by (auto split: if_splits)
    have "[] \<notin> set (splitAux True [] cs)"
      by (rule Cons.IH) (use cs in auto)
    moreover have "[] \<notin> set (splitAux True cur cs)"
      by (rule Cons.IH) (use cs in auto)
    moreover have "\<not> inRun \<Longrightarrow> cur \<noteq> []"
      using Cons.prems(1) True by auto
    ultimately show ?thesis
      using True by auto
  next
    case False
    have "[] \<notin> set (splitAux False (c # cur) cs)"
      by (rule Cons.IH) (use Cons.prems(2) in \<open>auto split: if_splits\<close>)
    with False show ?thesis
      by simp
  qed
qed

lemma no_empty_pieces:
  assumes "s \<noteq> []" and "\<not> isWhiteSpace (hd s)" and "\<not> isWhiteSpace (last s)"
  shows "filter (\<lambda>piece. piece = []) (splitWhiteSpace s) = []"
proof -
  have "[] \<notin> set (splitAux False [] s)"
    by (rule no_empty_piece_aux) (use assms in auto)
  then show ?thesis
    by (auto simp: splitWhiteSpace_def filter_empty_conv)
qed

text \<open>
  The score of the code is the token-overlap score plus the number of empty pieces,
  which is the same for every chunk.
\<close>

lemma pieceScore_tokenOverlap:
  "pieceScore lower query doc = emptyPieces lower query + tokenOverlap lower query doc"
proof -
  let ?P = "\<lambda>piece. sublist piece (lower (content doc))"
  let ?xs = "splitWhiteSpace (lower query)"
  have "length (filter ?P ?xs)
        = length (filter (\<lambda>piece. piece = []) (filter ?P ?xs))
          + length (filter (\<lambda>piece. piece \<noteq> []) (filter ?P ?xs))"
    using sum_length_filter_compl [of "\<lambda>piece. piece = []" "filter ?P ?xs"] by simp
  moreover have "filter (\<lambda>piece. piece = []) (filter ?P ?xs) = filter (\<lambda>piece. piece = []) ?xs"
    unfolding filter_filter by (rule filter_cong) auto
  moreover have "filter (\<lambda>piece. piece \<noteq> []) (filter ?P ?xs) = filter ?P (tokens (lower query))"
    unfolding tokens_split filter_filter by (rule filter_cong) auto
  ultimately show ?thesis
    by (simp add: pieceScore_def emptyPieces_def tokenOverlap_def)
qed

lemma words_zebra: "splitWhiteSpace (toLowerCase (asc '' zebra'')) = [[], asc ''zebra'']"
  by (simp add: string_defs)

lemma tokens_zebra: "tokens (toLowerCase (asc '' zebra'')) = [asc ''zebra'']"
  by (simp add: tokens_split words_zebra) (simp add: asc_def)

lemma score_zebra:
  "docScore [[], asc ''zebra''] doc_admission_en = 1"
  "docScore [[], asc ''zebra''] doc_fees_en = 1"
  "docScore [[], asc ''zebra''] doc_library_en = 1"
  by (simp_all add: docScore_def string_defs sample_defs)

lemma search_zebra:
  "searchDocuments collegeDocuments0 (asc '' zebra'') ENGLISH
     = [doc_admission_en, doc_fees_en, doc_library_en]"
  by (simp add: searchDocuments_def english_pool words_zebra score_zebra)

lemma overlap_zebra:
  "tokenOverlap toLowerCase (asc '' zebra'') doc_admission_en = 0"
  "tokenOverlap toLowerCase (asc '' zebra'') doc_fees_en = 0"
  "tokenOverlap toLowerCase (asc '' zebra'') doc_library_en = 0"
  by (simp_all add: tokenOverlap_def tokens_zebra includes_iff_sublist [symmetric])
     (simp_all add: string_defs sample_defs)

text \<open>
  C5, as stated, fails at a query that begins with white space. The query " zebra" (a
  space, then a word that no sample chunk holds) splits into an empty piece and "zebra".
  The empty piece counts for every chunk, so the search returns all three English
  chunks, each with no overlapping token.
\<close>

theorem zero_overlap_returned_counterexample:
  "searchDocuments collegeDocuments0 (asc '' zebra'') ENGLISH
     = [doc_admission_en, doc_fees_en, doc_library_en]
   \<and> tokens (toLowerCase (asc '' zebra'')) = [asc ''zebra'']
   \<and> tokenOverlap toLowerCase (asc '' zebra'') doc_admission_en = 0
   \<and> tokenOverlap toLowerCase (asc '' zebra'') doc_fees_en = 0
   \<and> tokenOverlap toLowerCase (asc '' zebra'') doc_library_en = 0"
  by (simp add: search_zebra tokens_zebra overlap_zebra)

text \<open>
  C5, amended. For every store, query and language, and under every lowering function,
  the result of the search is sorted by descending token-overlap score (the number of
  lowercase, whitespace-delimited query tokens that occur as substrings of the lowered
  content of the chunk). When the lowered query is not empty and neither begins nor ends
  with white space, no chunk with zero overlapping tokens is in the result.
\<close>

theorem search_sorted_by_token_overlap:
  "sorted_wrt (\<lambda>a b. tokenOverlap lower query b \<le> tokenOverlap lower query a)
     (searchDocumentsWith lower docs query lang)
   \<and> (lower query \<noteq> [] \<and> \<not> isWhiteSpace (hd (lower query))
        \<and> \<not> isWhiteSpace (last (lower query))
      \<longrightarrow> (\<forall>d \<in> set (searchDocumentsWith lower docs query lang).
             tokenOverlap lower query d > 0))"
proof (intro conjI impI)
  have "sorted_wrt (\<lambda>a b. pieceScore lower query b \<le> pieceScore lower query a)
          (searchDocumentsWith lower docs query lang)"
    unfolding searchDocumentsWith_alt by (rule sorted_scored) auto
  then show "sorted_wrt (\<lambda>a b. tokenOverlap lower query b \<le> tokenOverlap lower query a)
          (searchDocumentsWith lower docs query lang)"
    by (simp add: pieceScore_tokenOverlap)
next
  assume "lower query \<noteq> [] \<and> \<not> isWhiteSpace (hd (lower query))
          \<and> \<not> isWhiteSpace (last (lower query))"
  then have "emptyPieces lower query = 0"
    by (simp add: emptyPieces_def no_empty_pieces)
  then have "pieceScore lower query d = tokenOverlap lower query d" for d
    by (simp add: pieceScore_tokenOverlap)
  then show "\<forall>d \<in> set (searchDocumentsWith lower docs query lang).
               tokenOverlap lower query d > 0"
    using searchDocumentsWith_subset [of lower docs query lang] by auto
qed

lemma words_fees_library_books:
  "splitWhiteSpace (toLowerCase (asc ''Fees library books''))
     = [asc ''fees'', asc ''library'', asc ''books'']"
  by (simp add: string_defs)

lemma lowered_fees_library_books:
  "toLowerCase (asc ''Fees library books'') = asc ''fees library books''"
  by (simp add: string_defs)

lemma score_fees_library_books:
  "docScore [asc ''fees'', asc ''library'', asc ''books''] doc_admission_en = 0"
  "docScore [asc ''fees'', asc ''library'', asc ''books''] doc_fees_en = 1"
  "docScore [asc ''fees'', asc ''library'', asc ''books''] doc_library_en = 2"
  by (simp_all add: docScore_def string_defs sample_defs)

lemma search_fees_library_books:
  "searchDocuments collegeDocuments0 (asc ''Fees library books'') ENGLISH
     = [doc_library_en, doc_fees_en]"
  by (simp add: searchDocuments_def english_pool words_fees_library_books
      score_fees_library_books)

lemma overlap_fees_library_books:
  "tokenOverlap toLowerCase (asc ''Fees library books'') doc_admission_en = 0"
  "tokenOverlap toLowerCase (asc ''Fees library books'') doc_fees_en = 1"
  "tokenOverlap toLowerCase (asc ''Fees library books'') doc_library_en = 2"
  by (simp_all add: tokenOverlap_def tokens_split words_fees_library_books
      includes_iff_sublist [symmetric])
     (simp_all add: string_defs sample_defs)

text \<open>
  The sample store holds the fees chunk before the library chunk. Asked for "Fees library
  books" in English, the search returns the library chunk (two tokens) before the fees
  chunk (one token), and leaves the admission chunk (no token) out.
\<close>

theorem search_sorted_by_token_overlap_witness:
  "toLowerCase (asc ''Fees library books'') = asc ''fees library books''
   \<and> asc ''fees library books'' \<noteq> []
   \<and> \<not> isWhiteSpace (hd (asc ''fees library books''))
   \<and> \<not> isWhiteSpace (last (asc ''fees library books''))
   \<and> filter (\<lambda>doc. language (metadata doc) = ENGLISH) collegeDocuments0
       = [doc_admission_en, doc_fees_en, doc_library_en]
   \<and> searchDocumentsWith toLowerCase collegeDocuments0 (asc ''Fees library books'') ENGLISH
       = [doc_library_en, doc_fees_en]
   \<and> tokenOverlap toLowerCase (asc ''Fees library books'') doc_library_en = 2
   \<and> tokenOverlap toLowerCase (asc ''Fees library books'') doc_fees_en = 1
   \<and> tokenOverlap toLowerCase (asc ''Fees library books'') doc_admission_en = 0"
proof -
  have edges: "asc ''fees library books'' \<noteq> []"
    "\<not> isWhiteSpace (hd (asc ''fees library books''))"
    "\<not> isWhiteSpace (last (asc ''fees library books''))"
    by (simp_all add: asc_def isWhiteSpace_def)
  have found: "searchDocumentsWith toLowerCase collegeDocuments0 (asc ''Fees library books'')
                 ENGLISH = [doc_library_en, doc_fees_en]"
    by (simp add: searchDocuments_with [symmetric] search_fees_library_books)
  show ?thesis
    using search_sorted_by_token_overlap
        [of toLowerCase "asc ''Fees library books''" collegeDocuments0 ENGLISH]
    by (simp add: found edges overlap_fees_library_books lowered_fees_library_books
        english_pool)
qed

section \<open>Evaluation of the tables and of the detector\<close>

lemmas keyword_defs = keywordsOf_def keywordsEnglish_def keywordsHindi_def keywordsRajasthani_def

lemma noContext_english:
  "getErrorMessage ENGLISH ''noContext''
     = asc ''I don't have enough information to answer that question.''"
  by (simp add: getErrorMessage_def errorLookup_def errorMessages_def orElse_def asc_def)

lemma technical_english:
  "getErrorMessage ENGLISH ''technical''
     = asc ''I'm experiencing some technical difficulties. Please try again later.''"
  by (simp add: getErrorMessage_def errorLookup_def errorMessages_def orElse_def asc_def)

lemma greeting_english:
  "getGreeting ENGLISH = asc ''Hello! I'm your college assistant. How can I help you today?''"
  by (simp add: getGreeting_def greetings_def orElse_def asc_def)

lemma hello_counts:
  "scriptMatches ENGLISH (asc ''hello'') = 5"
  "scriptMatches HINDI (asc ''hello'') = 0"
  "scriptMatches RAJASTHANI (asc ''hello'') = 0"
  "keywordMatches ENGLISH (trim (toLowerCase (asc ''hello''))) = 1"
  "keywordMatches HINDI (trim (toLowerCase (asc ''hello''))) = 0"
  "keywordMatches RAJASTHANI (trim (toLowerCase (asc ''hello''))) = 0"
  by (simp_all add: scriptMatches_def script_def keywordMatches_def keyword_defs string_defs
      trim_def)

lemma hello_sorted:
  "sortedScores ''eng'' (asc ''hello'') = [(ENGLISH, 0.26), (HINDI, 0), (RAJASTHANI, 0)]"
  by (simp add: sortedScores_def scoresWithHint_def francBonus_def hello_counts)

lemma hello_detected:
  "detectLanguage francEng (asc ''hello'')
     = \<lparr>det_language = ENGLISH, det_confidence = 0.26, alternatives = None\<rparr>"
  by (simp add: detectLanguage_def francEng_def hello_sorted)
     (simp add: trim_def asc_def isWhiteSpace_def)

lemma validate_anonymous:
  "1 \<le> length (trim m) \<Longrightarrow> length (trim m) \<le> 1000 \<Longrightarrow>
   validateChatMessage (anonymousRequest m l) = anonymousRequest (trim m) l"
  by (simp add: validateChatMessage_def anonymousRequest_def)

lemma trim_hello: "trim (asc ''hello'') = asc ''hello''"
  by (simp add: trim_def asc_def isWhiteSpace_def)

lemma trim_gibberish:
  "trim (asc ''asdkjasdlk random gibberish'') = asc ''asdkjasdlk random gibberish''"
  by (simp add: trim_def asc_def isWhiteSpace_def)

lemma trim_library_hours: "trim (asc ''library hours'') = asc ''library hours''"
  by (simp add: trim_def asc_def isWhiteSpace_def)

lemma trim_history: "trim (asc ''  History of the library '') = asc ''History of the library''"
  by (simp add: trim_def asc_def isWhiteSpace_def)

lemma trim_history_idem: "trim (asc ''History of the library'') = asc ''History of the library''"
  by (simp add: trim_def asc_def isWhiteSpace_def)

lemma not_greeting_gibberish: "\<not> isGreeting (asc ''asdkjasdlk random gibberish'')"
  by (simp add: isGreeting_def greetingAlternatives_def canonicalize_def asc_def)

lemma not_greeting_library_hours: "\<not> isGreeting (asc ''library hours'')"
  by (simp add: isGreeting_def greetingAlternatives_def canonicalize_def asc_def)

lemma greeting_hello: "isGreeting (asc ''hello'')"
  by (simp add: isGreeting_def greetingAlternatives_def canonicalize_def asc_def)

lemma length_asc: "length (asc s) = length s"
  by (simp add: asc_def)

lemma fixture_simps:
  "user (anonymousRequest m l) = None"
  "message (anonymousRequest m l) = m"
  "req_language (anonymousRequest m l) = l"
  "sessionId (anonymousRequest m l) = None"
  "validationErrors (anonymousRequest m l) = []"
  "userIdOf (anonymousRequest m l) = asc ''anonymous''"
  "resolveLanguage env (anonymousRequest m (Some lang)) = lang"
  "sessionIdOf envUp (anonymousRequest m l) = asc ''session_1700000000000_k3x9q2m1z''"
  "sessionIdOf envDbDown (anonymousRequest m l) = asc ''session_1700000000000_k3x9q2m1z''"
  "saveSucceeds envUp cm = True"
  "saveSucceeds envDbDown cm = False"
  "franc envUp = francEng"
  "franc envDbDown = francEng"
  "textGeneration envUp = generationDown"
  "textGeneration envDbDown = generationDown"
  "elapsedAtSave envUp = 12"
  "elapsedAtReply envUp = 15"
  "elapsedAtSave envDbDown = 12"
  "elapsedAtReply envDbDown = 15"
  by (simp_all add: anonymousRequest_def userIdOf_def resolveLanguage_def sessionIdOf_def
      envUp_def envDbDown_def accepts_def rejects_def orElse_def asc_def)

lemma post_anonymous:
  "1 \<le> length (trim m) \<Longrightarrow> length (trim m) \<le> 1000 \<Longrightarrow>
   postMessage env docs db (anonymousRequest m l)
     = processChatMessage env docs db (anonymousRequest (trim m) l)"
  by (simp add: postMessage_def validateChatMessage_def anonymousRequest_def)

section \<open>Properties of the composition\<close>

text \<open>
  C8. For every query, every non-empty context list and every language of the
  enumeration, the template fallback returns the prefix of that language followed by the
  content of the first element of the context; neither the query nor the later elements
  enter the answer. Every language of the enumeration has its key in the table, so the
  English default of the lookup is never taken.
\<close>

theorem fallback_template_first_snippet:
  "generateFallbackResponse query (c # later) ENGLISH
     = asc ''Based on the information I have: '' @ c
   \<and> generateFallbackResponse query (c # later) HINDI
     = [2313, 2346, 2354, 2348, 2381, 2343, 32, 2332, 2366, 2344, 2325, 2366, 2352, 2368, 32,
        2325, 2375, 32, 2310, 2343, 2366, 2352, 32, 2346, 2352, 58, 32] @ c
   \<and> generateFallbackResponse query (c # later) RAJASTHANI
     = [2313, 2346, 2354, 2348, 2381, 2343, 32, 2332, 2366, 2339, 2325, 2366, 2352, 2368, 32,
        2325, 2375, 32, 2310, 2343, 2366, 2352, 32, 2346, 2352, 58, 32] @ c"
  by (simp add: generateFallbackResponse_def fallbackPrefixes_def orElse_def asc_def)

section \<open>Properties of the pipeline\<close>

lemma zero_snippets:
  assumes "searchDocuments docs query lang = []"
  shows "processRAGQuery fr tg docs query (Some lang)
         = \<lparr>answer = getErrorMessage lang ''noContext'', rag_context = [],
            rag_confidence = 0.1, rag_sources = [], rag_language = lang\<rparr>"
  using assms by (simp add: processRAGQuery_def)

lemma zero_snippet_path:
  assumes "validationErrors req = []"
    and "\<not> isGreeting (trim (message req))"
    and "searchDocuments docs (message req) (resolveLanguage env req) = []"
  shows "processChatMessage env docs db req =
     persistAndReply env db
       \<lparr>cm_userId = userIdOf req, cm_message = trim (message req),
        cm_response = getErrorMessage (resolveLanguage env req) ''noContext'',
        cm_language = resolveLanguage env req, cm_confidence = 0.1,
        cm_responseTime = elapsedAtSave env, cm_isFromRAG = True, cm_context = [],
        cm_sessionId = sessionIdOf env req\<rparr>
       \<lparr>success = True,
        response = getErrorMessage (resolveLanguage env req) ''noContext'',
        reply_language = resolveLanguage env req, confidence = 0.1,
        responseTime = elapsedAtReply env, reply_sessionId = sessionIdOf env req,
        reply_sources = Some []\<rparr>"
  using assms by (simp add: processChatMessage_def Let_def zero_snippets)

text \<open>
  C1, as stated, fails. The sample store holds no chunk for the English message
  "asdkjasdlk random gibberish"; the turn is answered with the English "not enough
  information" message and an empty context, and its confidence, in the reply and in the
  stored exchange, is 0.1, not 0.3: \<open>processRAGQuery\<close> returns before the formula
  \<open>min(0.3 + 0.2 n, 0.9)\<close> is reached.
\<close>

theorem zero_snippet_confidence_counterexample:
  "searchDocuments collegeDocuments0 (asc ''asdkjasdlk random gibberish'') ENGLISH = []
   \<and> rag_confidence (processRAGQuery francEng generationDown collegeDocuments0
         (asc ''asdkjasdlk random gibberish'') (Some ENGLISH)) \<noteq> 0.3
   \<and> postMessage envUp collegeDocuments0 []
         (anonymousRequest (asc ''asdkjasdlk random gibberish'') (Some ENGLISH))
       = ([\<lparr>cm_userId = asc ''anonymous'',
             cm_message = asc ''asdkjasdlk random gibberish'',
             cm_response = asc ''I don't have enough information to answer that question.'',
             cm_language = ENGLISH, cm_confidence = 0.1, cm_responseTime = 12,
             cm_isFromRAG = True, cm_context = [],
             cm_sessionId = asc ''session_1700000000000_k3x9q2m1z''\<rparr>],
          Json200
            \<lparr>success = True,
             response = asc ''I don't have enough information to answer that question.'',
             reply_language = ENGLISH, confidence = 0.1, responseTime = 15,
             reply_sessionId = asc ''session_1700000000000_k3x9q2m1z'',
             reply_sources = Some []\<rparr>)"
  by (simp add: search_gibberish zero_snippets post_anonymous trim_gibberish length_asc
      zero_snippet_path not_greeting_gibberish fixture_simps noContext_english
      persistAndReply_def)

text \<open>
  C1, amended. For every chat turn that passes validation, is no greeting and whose
  retrieval finds no snippet, the pipeline answers with the "not enough information"
  message of the resolved language, with confidence exactly 0.1, an empty context list and
  an empty source list; this is the exchange that is stored and the reply that is sent.
\<close>

theorem zero_snippet_turn:
  assumes "validationErrors req = []"
    and "\<not> isGreeting (trim (message req))"
    and "searchDocuments docs (message req) (resolveLanguage env req) = []"
  shows "processChatMessage env docs db req =
     persistAndReply env db
       \<lparr>cm_userId = userIdOf req, cm_message = trim (message req),
        cm_response = getErrorMessage (resolveLanguage env req) ''noContext'',
        cm_language = resolveLanguage env req, cm_confidence = 0.1,
        cm_responseTime = elapsedAtSave env, cm_isFromRAG = True, cm_context = [],
        cm_sessionId = sessionIdOf env req\<rparr>
       \<lparr>success = True,
        response = getErrorMessage (resolveLanguage env req) ''noContext'',
        reply_language = resolveLanguage env req, confidence = 0.1,
        responseTime = elapsedAtReply env, reply_sessionId = sessionIdOf env req,
        reply_sources = Some []\<rparr>"
  using assms by (rule zero_snippet_path)


theorem zero_snippet_turn_witness:
  "validationErrors (anonymousRequest (asc ''asdkjasdlk random gibberish'') (Some ENGLISH)) = []
   \<and> \<not> isGreeting (trim (asc ''asdkjasdlk random gibberish''))
   \<and> searchDocuments collegeDocuments0 (asc ''asdkjasdlk random gibberish'') ENGLISH = []
   \<and> snd (processChatMessage envUp collegeDocuments0 []
            (anonymousRequest (asc ''asdkjasdlk random gibberish'') (Some ENGLISH)))
       = Json200
           \<lparr>success = True,
            response = asc ''I don't have enough information to answer that question.'',
            reply_language = ENGLISH, confidence = 0.1, responseTime = 15,
            reply_sessionId = asc ''session_1700000000000_k3x9q2m1z'',
            reply_sources = Some []\<rparr>"
  using zero_snippet_turn [of "anonymousRequest (asc ''asdkjasdlk random gibberish'') (Some ENGLISH)"
      collegeDocuments0 envUp "[]"]
  by (simp add: search_gibberish trim_gibberish not_greeting_gibberish fixture_simps
      noContext_english persistAndReply_def)


section \<open>The greeting short cut\<close>

lemma greeting_path:
  assumes "validationErrors req = []" and "isGreeting (trim (message req))"
  shows "processChatMessage env docs db req =
     (if saveSucceeds env
           \<lparr>cm_userId = userIdOf req, cm_message = trim (message req),
            cm_response = getGreeting (resolveLanguage env req),
            cm_language = resolveLanguage env req, cm_confidence = 0.9,
            cm_responseTime = elapsedAtSave env, cm_isFromRAG = False, cm_context = [],
            cm_sessionId = sessionIdOf env req\<rparr>
      then (db @ [\<lparr>cm_userId = userIdOf req, cm_message = trim (message req),
                   cm_response = getGreeting (resolveLanguage env req),
                   cm_language = resolveLanguage env req, cm_confidence = 0.9,
                   cm_responseTime = elapsedAtSave env, cm_isFromRAG = False,
                   cm_context = [], cm_sessionId = sessionIdOf env req\<rparr>],
            Json200 \<lparr>success = True, response = getGreeting (resolveLanguage env req),
                     reply_language = resolveLanguage env req, confidence = 0.9,
                     responseTime = elapsedAtReply env,
                     reply_sessionId = sessionIdOf env req, reply_sources = None\<rparr>)
      else (db, NextAppError ''Failed to process chat message'' 500))"
  using assms by (simp add: processChatMessage_def persistAndReply_def Let_def)

lemma resolveLanguage_other_services:
  "resolveLanguage (env\<lparr>textGeneration := tg\<rparr>) req = resolveLanguage env req"
  by (simp add: resolveLanguage_def split: option.splits)

lemma sessionIdOf_other_services:
  "sessionIdOf (env\<lparr>textGeneration := tg\<rparr>) req = sessionIdOf env req"
  by (simp add: sessionIdOf_def)

lemma greeting_independent:
  assumes "validationErrors req = []" and "isGreeting (trim (message req))"
  shows "processChatMessage (env\<lparr>textGeneration := tg\<rparr>) docs' db req
         = processChatMessage env docs db req"
  by (simp add: greeting_path [OF assms] resolveLanguage_other_services sessionIdOf_other_services)

lemma canonicalize_lower:
  assumes "97 \<le> lowerUnit c" "lowerUnit c \<le> 122"
  shows "canonicalize c = canonicalize (lowerUnit c)"
  using assms by (auto simp: canonicalize_def lowerUnit_def split: if_splits)

lemma canonicalize_lower_word:
  assumes "\<forall>c \<in> set (toLowerCase pre). 97 \<le> c \<and> c \<le> 122"
  shows "map canonicalize pre = map canonicalize (toLowerCase pre)"
  using assms by (induction pre) (auto simp: toLowerCase_def canonicalize_lower)

lemma greeting_words_letters:
  "w \<in> set (map asc [''hi'', ''hello'', ''hey'', ''namaste'']) \<Longrightarrow> \<forall>c \<in> set w. 97 \<le> c \<and> c \<le> 122"
  by (auto simp: asc_def)

lemma greeting_words_alternatives:
  "w \<in> set (map asc [''hi'', ''hello'', ''hey'', ''namaste'']) \<Longrightarrow> w \<in> set greetingAlternatives"
  by (auto simp: greetingAlternatives_def)

lemma isGreeting_prefix:
  assumes "toLowerCase pre \<in> set (map asc [''hi'', ''hello'', ''hey'', ''namaste''])"
  shows "isGreeting (pre @ rest)"
proof -
  have "map canonicalize pre = map canonicalize (toLowerCase pre)"
    using assms greeting_words_letters canonicalize_lower_word by blast
  then have "prefix (map canonicalize (toLowerCase pre)) (map canonicalize (pre @ rest))"
    by simp
  then show ?thesis
    unfolding isGreeting_def list_ex_iff using greeting_words_alternatives [OF assms] by blast
qed


text \<open>
  For every valid message whose trimmed form matches the greeting pattern as the source
  file holds it (one of its alternatives, compared without regard to case, anchored at the
  start), the turn takes the short cut: the answer is the greeting of the resolved
  language, the confidence is exactly 0.9, \<open>isFromRAG\<close> is false and the stored context
  is empty. The exchange is appended and the reply sent when the save succeeds; the
  outcome does not depend on the document store nor on the text generation service, which
  the short cut never calls.
\<close>

lemma greeting_short_circuit:
  assumes "validationErrors req = []" and "isGreeting (trim (message req))"
  shows "processChatMessage env docs db req =
     (if saveSucceeds env
           \<lparr>cm_userId = userIdOf req, cm_message = trim (message req),
            cm_response = getGreeting (resolveLanguage env req),
            cm_language = resolveLanguage env req, cm_confidence = 0.9,
            cm_responseTime = elapsedAtSave env, cm_isFromRAG = False, cm_context = [],
            cm_sessionId = sessionIdOf env req\<rparr>
      then (db @ [\<lparr>cm_userId = userIdOf req, cm_message = trim (message req),
            cm_response = getGreeting (resolveLanguage env req),
            cm_language = resolveLanguage env req, cm_confidence = 0.9,
            cm_responseTime = elapsedAtSave env, cm_isFromRAG = False, cm_context = [],
            cm_sessionId = sessionIdOf env req\<rparr>],
            Json200 \<lparr>success = True, response = getGreeting (resolveLanguage env req),
                     reply_language = resolveLanguage env req, confidence = 0.9,
                     responseTime = elapsedAtReply env,
                     reply_sessionId = sessionIdOf env req, reply_sources = None\<rparr>)
      else (db, NextAppError ''Failed to process chat message'' 500))
   \<and> (\<forall>tg docs'. processChatMessage (env\<lparr>textGeneration := tg\<rparr>) docs' db req
                    = processChatMessage env docs db req)"
  using greeting_path [OF assms] greeting_independent [OF assms] by simp

lemma resolve_hello: "resolveLanguage envUp (anonymousRequest (asc ''hello'') None) = ENGLISH"
  by (simp add: resolveLanguage_def fixture_simps hello_detected)

text \<open>
  The message "hello" with no language: the detector answers English, and the turn is
  the English greeting with confidence 0.9 and no sources.
\<close>

lemma greeting_short_circuit_hello:
  "validationErrors (anonymousRequest (asc ''hello'') None) = []
   \<and> isGreeting (trim (asc ''hello''))
   \<and> processChatMessage envUp collegeDocuments0 [] (anonymousRequest (asc ''hello'') None)
       = ([\<lparr>cm_userId = asc ''anonymous'', cm_message = asc ''hello'',
             cm_response = asc ''Hello! I'm your college assistant. How can I help you today?'',
             cm_language = ENGLISH, cm_confidence = 0.9, cm_responseTime = 12,
             cm_isFromRAG = False, cm_context = [],
             cm_sessionId = asc ''session_1700000000000_k3x9q2m1z''\<rparr>],
          Json200
            \<lparr>success = True,
             response = asc ''Hello! I'm your college assistant. How can I help you today?'',
             reply_language = ENGLISH, confidence = 0.9, responseTime = 15,
             reply_sessionId = asc ''session_1700000000000_k3x9q2m1z'',
             reply_sources = None\<rparr>)"
  using greeting_short_circuit [of "anonymousRequest (asc ''hello'') None" envUp
      collegeDocuments0 "[]"]
  by (simp add: fixture_simps trim_hello greeting_hello resolve_hello greeting_english)

lemma hindi_pool:
  "filter (\<lambda>doc. language (metadata doc) = HINDI) collegeDocuments0
     = [doc_admission_hi, doc_fees_hi]"
  by (simp add: collegeDocuments0_def sample_defs)

lemma words_namaste:
  "splitWhiteSpace (toLowerCase namasteHindi) = [namasteHindi]"
  by (simp add: string_defs namasteHindi_def)

lemma score_namaste:
  "docScore [namasteHindi] doc_admission_hi = 0"
  "docScore [namasteHindi] doc_fees_hi = 0"
  by (simp_all add: docScore_def string_defs sample_defs namasteHindi_def)

lemma search_namaste: "searchDocuments collegeDocuments0 namasteHindi HINDI = []"
  by (simp add: searchDocuments_def hindi_pool words_namaste score_namaste)

lemma trim_namaste: "trim namasteHindi = namasteHindi"
  by (simp add: trim_def namasteHindi_def isWhiteSpace_def)

lemma not_greeting_namaste: "\<not> isGreeting namasteHindi"
  by (simp add: isGreeting_def greetingAlternatives_def canonicalize_def asc_def
      namasteHindi_def)

lemma length_namaste: "length namasteHindi = 6"
  by (simp add: namasteHindi_def)

lemma greeting_is_not_noContext: "getGreeting HINDI \<noteq> getErrorMessage HINDI ''noContext''"
  by (simp add: getGreeting_def greetings_def getErrorMessage_def errorLookup_def
      errorMessages_def orElse_def)

lemma greeting_hindi_starts: "prefix namasteHindi (getGreeting HINDI)"
  by (simp add: getGreeting_def greetings_def orElse_def namasteHindi_def)

text \<open>
  C3, at the Hindi greeting in Devanagari. The last two alternatives of the pattern are
  meant for the Devanagari greetings with which the Hindi and the Rajasthani answer of
  \<open>getGreeting\<close> begin, but the source file holds them as mis-decoded text (code units
  such as 0x2021 and 0x00A7), which no Devanagari input matches. The Hindi greeting word,
  sent with the language Hindi, is therefore no greeting for the handler: the turn goes
  through retrieval, finds nothing, and is answered with the "not enough information"
  message, confidence 0.1 and \<open>isFromRAG\<close> true, where C3 has the greeting, 0.9 and false.
\<close>

theorem devanagari_greeting_not_short_circuited:
  "\<not> isGreeting (trim namasteHindi)
   \<and> postMessage envUp collegeDocuments0 [] (anonymousRequest namasteHindi (Some HINDI))
       = ([\<lparr>cm_userId = asc ''anonymous'', cm_message = namasteHindi,
             cm_response = getErrorMessage HINDI ''noContext'',
             cm_language = HINDI, cm_confidence = 0.1, cm_responseTime = 12,
             cm_isFromRAG = True, cm_context = [],
             cm_sessionId = asc ''session_1700000000000_k3x9q2m1z''\<rparr>],
          Json200
            \<lparr>success = True, response = getErrorMessage HINDI ''noContext'',
             reply_language = HINDI, confidence = 0.1, responseTime = 15,
             reply_sessionId = asc ''session_1700000000000_k3x9q2m1z'',
             reply_sources = Some []\<rparr>)
   \<and> getErrorMessage HINDI ''noContext'' \<noteq> getGreeting HINDI"
  using greeting_is_not_noContext
  by (simp add: post_anonymous trim_namaste length_namaste zero_snippet_path
      not_greeting_namaste search_namaste fixture_simps persistAndReply_def)

text \<open>
  C10. For every valid message whose trimmed form begins, without regard to case, with one
  of the tokens hi, hello, hey, namaste, whatever follows the token (so also when the token
  is the beginning of a longer word), the turn takes the greeting short cut and answers
  with the greeting and confidence 0.9; no retrieval takes place.
\<close>

theorem greeting_prefix_of_longer_word:
  assumes "validationErrors req = []"
    and "trim (message req) = pre @ rest"
    and "toLowerCase pre \<in> set (map asc [''hi'', ''hello'', ''hey'', ''namaste''])"
  shows "processChatMessage env docs db req =
     (if saveSucceeds env
           \<lparr>cm_userId = userIdOf req, cm_message = trim (message req),
            cm_response = getGreeting (resolveLanguage env req),
            cm_language = resolveLanguage env req, cm_confidence = 0.9,
            cm_responseTime = elapsedAtSave env, cm_isFromRAG = False, cm_context = [],
            cm_sessionId = sessionIdOf env req\<rparr>
      then (db @ [\<lparr>cm_userId = userIdOf req, cm_message = trim (message req),
            cm_response = getGreeting (resolveLanguage env req),
            cm_language = resolveLanguage env req, cm_confidence = 0.9,
            cm_responseTime = elapsedAtSave env, cm_isFromRAG = False, cm_context = [],
            cm_sessionId = sessionIdOf env req\<rparr>],
            Json200 \<lparr>success = True, response = getGreeting (resolveLanguage env req),
                     reply_language = resolveLanguage env req, confidence = 0.9,
                     responseTime = elapsedAtReply env,
                     reply_sessionId = sessionIdOf env req, reply_sources = None\<rparr>)
      else (db, NextAppError ''Failed to process chat message'' 500))"
proof -
  have "isGreeting (trim (message req))"
    using assms(2,3) by (simp add: isGreeting_prefix)
  with assms(1) show ?thesis
    by (rule greeting_path)
qed

lemma words_history:
  "splitWhiteSpace (toLowerCase (asc ''History of the library''))
     = [asc ''history'', asc ''of'', asc ''the'', asc ''library'']"
  by (simp add: string_defs)

lemma score_history:
  "docScore [asc ''history'', asc ''of'', asc ''the'', asc ''library''] doc_admission_en = 2"
  "docScore [asc ''history'', asc ''of'', asc ''the'', asc ''library''] doc_fees_en = 0"
  "docScore [asc ''history'', asc ''of'', asc ''the'', asc ''library''] doc_library_en = 2"
  by (simp_all add: docScore_def string_defs sample_defs)

lemma search_history:
  "searchDocuments collegeDocuments0 (asc ''History of the library'') ENGLISH
     = [doc_admission_en, doc_library_en]"
  by (simp add: searchDocuments_def english_pool words_history score_history)

lemma history_split:
  "asc ''History of the library'' = asc ''Hi'' @ asc ''story of the library''"
  "toLowerCase (asc ''Hi'') = asc ''hi''"
  by (simp_all add: string_defs)

text \<open>
  "History of the library" begins with "Hi": the turn is answered with the greeting,
  although the search would have found two chunks for it.
\<close>

theorem greeting_prefix_of_longer_word_witness:
  "validationErrors (anonymousRequest (asc ''History of the library'') (Some ENGLISH)) = []
   \<and> trim (asc ''History of the library'') = asc ''Hi'' @ asc ''story of the library''
   \<and> toLowerCase (asc ''Hi'') = asc ''hi''
   \<and> searchDocuments collegeDocuments0 (asc ''History of the library'') ENGLISH
       = [doc_admission_en, doc_library_en]
   \<and> processChatMessage envUp collegeDocuments0 []
         (anonymousRequest (asc ''History of the library'') (Some ENGLISH))
       = ([\<lparr>cm_userId = asc ''anonymous'', cm_message = asc ''History of the library'',
             cm_response = asc ''Hello! I'm your college assistant. How can I help you today?'',
             cm_language = ENGLISH, cm_confidence = 0.9, cm_responseTime = 12,
             cm_isFromRAG = False, cm_context = [],
             cm_sessionId = asc ''session_1700000000000_k3x9q2m1z''\<rparr>],
          Json200
            \<lparr>success = True,
             response = asc ''Hello! I'm your college assistant. How can I help you today?'',
             reply_language = ENGLISH, confidence = 0.9, responseTime = 15,
             reply_sessionId = asc ''session_1700000000000_k3x9q2m1z'',
             reply_sources = None\<rparr>)"
  using greeting_prefix_of_longer_word
      [of "anonymousRequest (asc ''History of the library'') (Some ENGLISH)"
          "asc ''Hi''" "asc ''story of the library''" envUp collegeDocuments0 "[]"]
  by (simp add: fixture_simps trim_history_idem history_split [symmetric] search_history
      greeting_english)


section \<open>Failures inside a turn\<close>

lemma found_snippets:
  assumes "searchDocuments docs query lang = found" and "found \<noteq> []"
  shows "processRAGQuery fr tg docs query (Some lang)
         = \<lparr>answer = generateContextualResponse tg query (map content found) lang,
            rag_context = map content found,
            rag_confidence = min (0.3 + real (length found) * 0.2) 0.9,
            rag_sources = map (\<lambda>doc. source (metadata doc)) found, rag_language = lang\<rparr>"
  using assms by (auto simp: processRAGQuery_def Let_def)

lemma generation_thrown:
  "tg (buildPrompt query ctx) = Thrown \<Longrightarrow>
   generateContextualResponse tg query ctx lang = generateFallbackResponse query ctx lang"
  by (simp add: generateContextualResponse_def)

lemma rag_path:
  assumes "validationErrors req = []" and "\<not> isGreeting (trim (message req))"
  shows "processChatMessage env docs db req =
     persistAndReply env db
       \<lparr>cm_userId = userIdOf req, cm_message = trim (message req),
        cm_response = answer (processRAGQuery (franc env) (textGeneration env) docs
                               (message req) (Some (resolveLanguage env req))),
        cm_language = rag_language (processRAGQuery (franc env) (textGeneration env) docs
                               (message req) (Some (resolveLanguage env req))),
        cm_confidence = rag_confidence (processRAGQuery (franc env) (textGeneration env) docs
                               (message req) (Some (resolveLanguage env req))),
        cm_responseTime = elapsedAtSave env, cm_isFromRAG = True,
        cm_context = rag_context (processRAGQuery (franc env) (textGeneration env) docs
                               (message req) (Some (resolveLanguage env req))),
        cm_sessionId = sessionIdOf env req\<rparr>
       \<lparr>success = True,
        response = answer (processRAGQuery (franc env) (textGeneration env) docs
                               (message req) (Some (resolveLanguage env req))),
        reply_language = rag_language (processRAGQuery (franc env) (textGeneration env) docs
                               (message req) (Some (resolveLanguage env req))),
        confidence = rag_confidence (processRAGQuery (franc env) (textGeneration env) docs
                               (message req) (Some (resolveLanguage env req))),
        responseTime = elapsedAtReply env, reply_sessionId = sessionIdOf env req,
        reply_sources = Some (rag_sources (processRAGQuery (franc env) (textGeneration env) docs
                               (message req) (Some (resolveLanguage env req))))\<rparr>"
  using assms by (simp add: processChatMessage_def Let_def)

lemma generation_failure_path:
  assumes "validationErrors req = []" and "\<not> isGreeting (trim (message req))"
    and "searchDocuments docs (message req) (resolveLanguage env req) = found"
    and "found \<noteq> []"
    and "textGeneration env (buildPrompt (message req) (map content found)) = Thrown"
  shows "processChatMessage env docs db req =
     persistAndReply env db
       \<lparr>cm_userId = userIdOf req, cm_message = trim (message req),
        cm_response = generateFallbackResponse (message req) (map content found)
                        (resolveLanguage env req),
        cm_language = resolveLanguage env req,
        cm_confidence = min (0.3 + real (length found) * 0.2) 0.9,
        cm_responseTime = elapsedAtSave env, cm_isFromRAG = True,
        cm_context = map content found, cm_sessionId = sessionIdOf env req\<rparr>
       \<lparr>success = True,
        response = generateFallbackResponse (message req) (map content found)
                     (resolveLanguage env req),
        reply_language = resolveLanguage env req,
        confidence = min (0.3 + real (length found) * 0.2) 0.9,
        responseTime = elapsedAtReply env, reply_sessionId = sessionIdOf env req,
        reply_sources = Some (map (\<lambda>doc. source (metadata doc)) found)\<rparr>"
  using assms(5)
  by (simp add: rag_path [OF assms(1,2)] found_snippets [OF assms(3,4)] generation_thrown)


lemma greeting_persist:
  assumes "validationErrors req = []" and "isGreeting (trim (message req))"
  shows "processChatMessage env docs db req =
     persistAndReply env db
       \<lparr>cm_userId = userIdOf req, cm_message = trim (message req),
        cm_response = getGreeting (resolveLanguage env req),
        cm_language = resolveLanguage env req, cm_confidence = 0.9,
        cm_responseTime = elapsedAtSave env, cm_isFromRAG = False, cm_context = [],
        cm_sessionId = sessionIdOf env req\<rparr>
       \<lparr>success = True, response = getGreeting (resolveLanguage env req),
        reply_language = resolveLanguage env req, confidence = 0.9,
        responseTime = elapsedAtReply env,
        reply_sessionId = sessionIdOf env req, reply_sources = None\<rparr>"
  using assms by (simp add: processChatMessage_def Let_def)

lemma persist_outcome:
  assumes "cm_userId cm = u" "cm_message cm = m" "cm_sessionId cm = sid"
    and "success reply" "response reply = cm_response cm"
    and "confidence reply = cm_confidence cm" "reply_sessionId reply = cm_sessionId cm"
  shows "\<exists>cm' reply'.
           cm_userId cm' = u \<and> cm_message cm' = m \<and> cm_sessionId cm' = sid
           \<and> success reply' \<and> response reply' = cm_response cm'
           \<and> confidence reply' = cm_confidence cm' \<and> reply_sessionId reply' = cm_sessionId cm'
           \<and> persistAndReply env db cm reply
               = (if saveSucceeds env cm' then (db @ [cm'], Json200 reply')
                  else (db, NextAppError ''Failed to process chat message'' 500))"
  using assms by (intro exI [of _ cm] exI [of _ reply]) (simp add: persistAndReply_def)

lemma turn_outcome:
  assumes "validationErrors req = []"
  shows "\<exists>cm reply.
           cm_userId cm = userIdOf req \<and> cm_message cm = trim (message req)
           \<and> cm_sessionId cm = sessionIdOf env req
           \<and> success reply \<and> response reply = cm_response cm
           \<and> confidence reply = cm_confidence cm \<and> reply_sessionId reply = cm_sessionId cm
           \<and> processChatMessage env docs db req
               = (if saveSucceeds env cm then (db @ [cm], Json200 reply)
                  else (db, NextAppError ''Failed to process chat message'' 500))"
proof (cases "isGreeting (trim (message req))")
  case True
  show ?thesis
    unfolding greeting_persist [OF assms True] by (rule persist_outcome) simp_all
next
  case False
  show ?thesis
    unfolding rag_path [OF assms False] by (rule persist_outcome) simp_all
qed

lemma fallback_english:
  "generateFallbackResponse query (c # later) ENGLISH
     = asc ''Based on the information I have: '' @ c"
  by (simp add: generateFallbackResponse_def fallbackPrefixes_def orElse_def asc_def)

lemma source_library: "source (metadata doc_library_en) = asc ''library-rules''"
  by (simp add: doc_library_en_def)

lemma library_turn:
  "processChatMessage env collegeDocuments0 db
       (anonymousRequest (asc ''library hours'') (Some ENGLISH))
   = persistAndReply env db
       \<lparr>cm_userId = asc ''anonymous'', cm_message = asc ''library hours'',
        cm_response = generateContextualResponse (textGeneration env) (asc ''library hours'')
                        [content doc_library_en] ENGLISH,
        cm_language = ENGLISH, cm_confidence = 0.5, cm_responseTime = elapsedAtSave env,
        cm_isFromRAG = True, cm_context = [content doc_library_en],
        cm_sessionId = sessionIdOf env (anonymousRequest (asc ''library hours'') (Some ENGLISH))\<rparr>
       \<lparr>success = True,
        response = generateContextualResponse (textGeneration env) (asc ''library hours'')
                     [content doc_library_en] ENGLISH,
        reply_language = ENGLISH, confidence = 0.5, responseTime = elapsedAtReply env,
        reply_sessionId = sessionIdOf env (anonymousRequest (asc ''library hours'') (Some ENGLISH)),
        reply_sources = Some [asc ''library-rules'']\<rparr>"
  by (simp add: rag_path found_snippets [OF search_library_hours] fixture_simps
      trim_library_hours not_greeting_library_hours source_library)

text \<open>
  C2, as stated, fails twice on the sample store with the message "library hours".
  With the text generation service throwing, the composition step catches the exception
  itself and answers with the template for the retrieved chunk, with confidence 0.5: not
  the technical-difficulty message, not confidence 0.1. With the database rejecting the
  write, the caller receives the error "Failed to process chat message" with status 500
  and no exchange is stored.
\<close>

theorem generation_and_save_failure_counterexample:
  "textGeneration envUp (buildPrompt (asc ''library hours'') [content doc_library_en]) = Thrown
   \<and> postMessage envUp collegeDocuments0 []
         (anonymousRequest (asc ''library hours'') (Some ENGLISH))
       = ([\<lparr>cm_userId = asc ''anonymous'', cm_message = asc ''library hours'',
             cm_response = asc ''Based on the information I have: '' @ content doc_library_en,
             cm_language = ENGLISH, cm_confidence = 0.5, cm_responseTime = 12,
             cm_isFromRAG = True, cm_context = [content doc_library_en],
             cm_sessionId = asc ''session_1700000000000_k3x9q2m1z''\<rparr>],
          Json200
            \<lparr>success = True,
             response = asc ''Based on the information I have: '' @ content doc_library_en,
             reply_language = ENGLISH, confidence = 0.5, responseTime = 15,
             reply_sessionId = asc ''session_1700000000000_k3x9q2m1z'',
             reply_sources = Some [asc ''library-rules'']\<rparr>)
   \<and> asc ''Based on the information I have: '' @ content doc_library_en
       \<noteq> getErrorMessage ENGLISH ''technical''
   \<and> postMessage envDbDown collegeDocuments0 []
         (anonymousRequest (asc ''library hours'') (Some ENGLISH))
       = ([], NextAppError ''Failed to process chat message'' 500)"
proof -
  have g: "generateContextualResponse generationDown (asc ''library hours'')
             [content doc_library_en] ENGLISH
           = asc ''Based on the information I have: '' @ content doc_library_en"
    by (simp add: generation_thrown generationDown_def fallback_english)
  have d: "asc ''Based on the information I have: '' @ content doc_library_en
           \<noteq> getErrorMessage ENGLISH ''technical''"
    by (simp add: technical_english asc_def)
  show ?thesis
    by (simp add: post_anonymous trim_library_hours length_asc library_turn g d
        persistAndReply_def fixture_simps generationDown_def)
qed

text \<open>
  C2, amended. For every message that passes validation and enters the pipeline, the turn
  ends in one of two ways: the exchange that the handler has built (for the caller's user,
  message and session) is appended to the store and the caller receives a success reply
  with the same answer and confidence, when the save succeeds; or the store is unchanged
  and the caller receives the error "Failed to process chat message" with status 500, when
  the save throws. An exception of the text generation call inside the composition step
  is absorbed there: the answer is the template fallback for the retrieved snippets and
  the confidence is \<open>min(0.3 + 0.2 n, 0.9)\<close> for the \<open>n\<close> snippets found.
\<close>

theorem turn_ends_persisted_or_500:
  assumes "validationErrors req = []"
    and "found = searchDocuments docs (message req) (resolveLanguage env req)"
  shows "(\<exists>cm reply.
           cm_userId cm = userIdOf req \<and> cm_message cm = trim (message req)
           \<and> cm_sessionId cm = sessionIdOf env req
           \<and> success reply \<and> response reply = cm_response cm
           \<and> confidence reply = cm_confidence cm \<and> reply_sessionId reply = cm_sessionId cm
           \<and> processChatMessage env docs db req
               = (if saveSucceeds env cm then (db @ [cm], Json200 reply)
                  else (db, NextAppError ''Failed to process chat message'' 500)))
    \<and> (\<not> isGreeting (trim (message req)) \<longrightarrow> found \<noteq> [] \<longrightarrow>
         textGeneration env (buildPrompt (message req) (map content found)) = Thrown \<longrightarrow>
         processChatMessage env docs db req =
           persistAndReply env db
             \<lparr>cm_userId = userIdOf req, cm_message = trim (message req),
              cm_response = generateFallbackResponse (message req) (map content found)
                              (resolveLanguage env req),
              cm_language = resolveLanguage env req,
              cm_confidence = min (0.3 + real (length found) * 0.2) 0.9,
              cm_responseTime = elapsedAtSave env, cm_isFromRAG = True,
              cm_context = map content found, cm_sessionId = sessionIdOf env req\<rparr>
             \<lparr>success = True,
              response = generateFallbackResponse (message req) (map content found)
                           (resolveLanguage env req),
              reply_language = resolveLanguage env req,
              confidence = min (0.3 + real (length found) * 0.2) 0.9,
              responseTime = elapsedAtReply env, reply_sessionId = sessionIdOf env req,
              reply_sources = Some (map (\<lambda>doc. source (metadata doc)) found)\<rparr>)"
  using turn_outcome [OF assms(1)] generation_failure_path [OF assms(1) _ assms(2) [symmetric]]
  by blast

theorem turn_ends_persisted_or_500_witness:
  "validationErrors (anonymousRequest (asc ''library hours'') (Some ENGLISH)) = []
   \<and> \<not> isGreeting (trim (asc ''library hours''))
   \<and> searchDocuments collegeDocuments0 (asc ''library hours'') ENGLISH = [doc_library_en]
   \<and> textGeneration envUp (buildPrompt (asc ''library hours'') [content doc_library_en]) = Thrown
   \<and> processChatMessage envUp collegeDocuments0 []
         (anonymousRequest (asc ''library hours'') (Some ENGLISH))
       = ([\<lparr>cm_userId = asc ''anonymous'', cm_message = asc ''library hours'',
             cm_response = asc ''Based on the information I have: '' @ content doc_library_en,
             cm_language = ENGLISH, cm_confidence = 0.5, cm_responseTime = 12,
             cm_isFromRAG = True, cm_context = [content doc_library_en],
             cm_sessionId = asc ''session_1700000000000_k3x9q2m1z''\<rparr>],
          Json200
            \<lparr>success = True,
             response = asc ''Based on the information I have: '' @ content doc_library_en,
             reply_language = ENGLISH, confidence = 0.5, responseTime = 15,
             reply_sessionId = asc ''session_1700000000000_k3x9q2m1z'',
             reply_sources = Some [asc ''library-rules'']\<rparr>)"
  using turn_ends_persisted_or_500
      [of "anonymousRequest (asc ''library hours'') (Some ENGLISH)" "[doc_library_en]"
          collegeDocuments0 envUp "[]"]
  by (simp add: fixture_simps search_library_hours trim_library_hours
      not_greeting_library_hours generationDown_def fallback_english source_library
      persistAndReply_def)


section \<open>Clearing the history\<close>

text \<open>
  With a session id that is not empty, and with none, \<open>clearChatHistory\<close> deletes
  exactly the exchanges of the user in that session, respectively of the user, and
  reports their number.
\<close>

lemma clear_session_exact:
  assumes "s \<noteq> []" and "deleteManySucceeds env"
  shows "clearChatHistory env db u (Some s)
         = (filter (\<lambda>m. \<not> (cm_userId m = u \<and> cm_sessionId m = s)) db,
            Cleared ''Session history cleared successfully''
              (length (filter (\<lambda>m. cm_userId m = u \<and> cm_sessionId m = s) db)))"
  using assms by (simp add: clearChatHistory_def deleteMany_def matchesQuery_def [abs_def])

lemma clear_all_exact:
  assumes "deleteManySucceeds env"
  shows "clearChatHistory env db u None
         = (filter (\<lambda>m. cm_userId m \<noteq> u) db,
            Cleared ''Chat history cleared successfully''
              (length (filter (\<lambda>m. cm_userId m = u) db)))"
  using assms by (simp add: clearChatHistory_def deleteMany_def matchesQuery_def [abs_def])

text \<open>
  C9, at the session id "" (the empty string). The store holds two exchanges of one user,
  in two sessions, and one exchange of another user. The claim has the call delete the
  exchanges of the user whose session id is the empty string, of which there is none, and
  leave all three in place. The handler takes the empty string for an omitted session id,
  deletes both exchanges of the user and reports 2.
\<close>

theorem clear_with_empty_session_id:
  "clearChatHistory envUp
     [exchangeOf (asc ''64f0c0ffee0000000000a001'') (asc ''session_1700000000000_aaaaaaaaa''),
      exchangeOf (asc ''64f0c0ffee0000000000b002'') (asc ''session_1700000000500_ccccccccc''),
      exchangeOf (asc ''64f0c0ffee0000000000a001'') (asc ''session_1700000000999_bbbbbbbbb'')]
     (asc ''64f0c0ffee0000000000a001'') (Some [])
   = ([exchangeOf (asc ''64f0c0ffee0000000000b002'') (asc ''session_1700000000500_ccccccccc'')],
      Cleared ''Chat history cleared successfully'' 2)"
  by (simp add: clearChatHistory_def deleteMany_def matchesQuery_def envUp_def exchangeOf_def
      asc_def)


section \<open>The floor of the detector\<close>

lemma length_sortedScoresDouble: "length (sortedScoresDouble lower code text) = 3"
  by (simp add: sortedScoresDouble_def scoresWithHintDouble_def Let_def)

lemma languages_sortedScoresDouble:
  "fst ` set (sortedScoresDouble lower code text) = {ENGLISH, HINDI, RAJASTHANI}"
proof -
  have "fst ` set (sortedScoresDouble lower code text)
        = fst ` set (scoresWithHintDouble lower code text)"
    by (force simp: sortedScoresDouble_def)
  then show ?thesis
    by (simp add: scoresWithHintDouble_def Let_def)
qed

lemma sorted_desc_head:
  assumes "sorted (map (\<lambda>(l, s). - s) ys)" and "ys = y # rest" and "z \<in> set ys"
  shows "snd z \<le> (snd y :: real)"
  using assms by (auto simp: case_prod_beta)

lemma sortedScoresDouble_top:
  assumes "sortedScoresDouble lower code text = primary # others"
  shows "\<exists>score. (fst primary, score) \<in> set (scoresWithHintDouble lower code text)
           \<and> snd primary = min (roundDouble (score / 10)) 1
           \<and> (\<forall>entry \<in> set (scoresWithHintDouble lower code text). snd entry \<le> score)"
proof -
  let ?xs = "scoresWithHintDouble lower code text"
  let ?ys = "sort_key (\<lambda>(lang, score). - score) ?xs"
  let ?g = "\<lambda>(lang, score :: real). (lang, min (roundDouble (score / 10)) (1 :: real))"
  from assms have "map ?g ?ys = primary # others"
    by (simp add: sortedScoresDouble_def)
  then obtain y rest where ys: "?ys = y # rest" and p: "primary = ?g y"
    by (auto simp: map_eq_Cons_conv)
  have s: "sorted (map (\<lambda>(l, s). - s) ?ys)"
    by (rule sorted_sort_key)
  have "y \<in> set ?xs"
    using ys by (metis list.set_intros(1) set_sort)
  moreover have "snd primary = min (roundDouble (snd y / 10)) 1" "fst primary = fst y"
    using p by (simp_all add: case_prod_beta)
  moreover have "\<forall>entry \<in> set ?xs. snd entry \<le> snd y"
    using sorted_desc_head [OF s ys] by simp
  ultimately show ?thesis
    by (intro exI [of _ "snd y"]) simp
qed

text \<open>
  C7. For every input text that is not blank, on the path where \<open>franc\<close> returns a code,
  and with the scores computed in double precision: when the first entry of the sorted
  scores has a normalized confidence below 0.2, the detector returns ENGLISH with
  confidence 0.5, and its alternatives are the runner-up entries computed from the
  scores (the next two entries with confidence above 0.1), absent when there is none.
  The first entry is the top-scoring candidate: the three languages are all in the list,
  and its confidence is the normalized score of a language that no other score exceeds.
\<close>

theorem weak_signal_defaults_to_english:
  assumes "trim text \<noteq> []"
    and "fr text = Returned code"
    and "sortedScoresDouble lower code text = primary # others"
    and "snd primary < roundDouble 0.2"
  shows "detectLanguageDouble lower fr text
         = \<lparr>det_language = ENGLISH, det_confidence = 0.5,
            alternatives =
              (if filter (\<lambda>r. snd r > roundDouble 0.1) (take 2 others) = [] then None
               else Some (filter (\<lambda>r. snd r > roundDouble 0.1) (take 2 others)))\<rparr>
   \<and> length others = 2
   \<and> fst ` set (primary # others) = {ENGLISH, HINDI, RAJASTHANI}
   \<and> (\<exists>score. (fst primary, score) \<in> set (scoresWithHintDouble lower code text)
           \<and> snd primary = min (roundDouble (score / 10)) 1
           \<and> (\<forall>entry \<in> set (scoresWithHintDouble lower code text). snd entry \<le> score))"
proof (intro conjI)
  have "text \<noteq> []"
    using assms(1) by (auto simp: trim_def)
  then show "detectLanguageDouble lower fr text
         = \<lparr>det_language = ENGLISH, det_confidence = 0.5,
            alternatives =
              (if filter (\<lambda>r. snd r > roundDouble 0.1) (take 2 others) = [] then None
               else Some (filter (\<lambda>r. snd r > roundDouble 0.1) (take 2 others)))\<rparr>"
    using assms by (simp add: detectLanguageDouble_def Let_def)
  show "length others = 2"
    using length_sortedScoresDouble [of lower code "text"] assms(3) by simp
  show "fst ` set (primary # others) = {ENGLISH, HINDI, RAJASTHANI}"
    using languages_sortedScoresDouble [of lower code "text"] assms(3) by simp
  show "\<exists>score. (fst primary, score) \<in> set (scoresWithHintDouble lower code text)
           \<and> snd primary = min (roundDouble (score / 10)) 1
           \<and> (\<forall>entry \<in> set (scoresWithHintDouble lower code text). snd entry \<le> score)"
    using assms(3) by (rule sortedScoresDouble_top)
qed

subsection \<open>Evaluation of the rounding\<close>

lemma binaryExponent_numeral:
  "binaryExponent (numeral k) e x =
     (if x < pow2 e then binaryExponent (pred_numeral k) (e - 1) x
      else if pow2 (e + 1) \<le> x then binaryExponent (pred_numeral k) (e + 1) x
      else e)"
  by (simp add: numeral_eq_Suc)

lemmas double_defs = roundDouble_def roundPositive_def roundHalfEven_def pow2_def
  binaryExponent_numeral Let_def

lemma double_literals:
  "roundDouble 0 = 0"
  "roundDouble (3 / 10) = 5404319552844595 / 18014398509481984"
  "roundDouble (7 / 10) = 3152519739159347 / 4503599627370496"
  "roundDouble (2 / 5) = 3602879701896397 / 9007199254740992"
  "roundDouble (1 / 5) = 3602879701896397 / 18014398509481984"
  "roundDouble (1 / 10) = 3602879701896397 / 36028797018963968"
  by (simp_all add: double_defs)

lemma double_values:
  "roundDouble (3152519739159347 / 4503599627370496) = 3152519739159347 / 4503599627370496"
  "roundDouble (2026619832316723 / 2251799813685248) = 2026619832316723 / 2251799813685248"
  "roundDouble (9007199254740991 / 4503599627370496) = 9007199254740991 / 4503599627370496"
  "roundDouble (3 / 2) = 3 / 2"
  "roundDouble (27021597764222975 / 18014398509481984) = 3 / 2"
  "roundDouble (16212958658533785 / 18014398509481984) = 2026619832316723 / 2251799813685248"
  "roundDouble (11709359031163289 / 9007199254740992) = 1463669878895411 / 1125899906842624"
  "roundDouble (3 / 20) = 5404319552844595 / 36028797018963968"
  "roundDouble (9007199254740991 / 45035996273704960) = 7205759403792793 / 36028797018963968"
  "roundDouble (2026619832316723 / 22517998136852480) = 3242591731706757 / 36028797018963968"
  by (simp_all add: double_defs)

lemma five_letters_counts:
  "scriptMatches ENGLISH [2309, 2309, 2309, 2309, 2309] = 0"
  "scriptMatches HINDI [2309, 2309, 2309, 2309, 2309] = 5"
  "scriptMatches RAJASTHANI [2309, 2309, 2309, 2309, 2309] = 5"
  "keywordMatches ENGLISH (trim (toLowerCase [2309, 2309, 2309, 2309, 2309])) = 0"
  "keywordMatches HINDI (trim (toLowerCase [2309, 2309, 2309, 2309, 2309])) = 0"
  "keywordMatches RAJASTHANI (trim (toLowerCase [2309, 2309, 2309, 2309, 2309])) = 0"
  by (simp_all add: scriptMatches_def script_def keywordMatches_def keyword_defs string_defs
      trim_def)

lemma five_letters_scores:
  "scoresWithHintDouble toLowerCase ''und'' [2309, 2309, 2309, 2309, 2309]
     = [(ENGLISH, 0), (HINDI, 3 / 2), (RAJASTHANI, 3 / 2)]"
  by (simp add: scoresWithHintDouble_def francBonusDouble_def five_letters_counts
      double_literals double_values)

lemma five_letters_sorted:
  "sortedScoresDouble toLowerCase ''und'' [2309, 2309, 2309, 2309, 2309]
     = [(HINDI, 5404319552844595 / 36028797018963968),
        (RAJASTHANI, 5404319552844595 / 36028797018963968), (ENGLISH, 0)]"
  by (simp add: sortedScoresDouble_def five_letters_scores double_literals double_values)

lemma aap_counts:
  "scriptMatches ENGLISH [2310, 2346, 2309] = 0"
  "scriptMatches HINDI [2310, 2346, 2309] = 3"
  "scriptMatches RAJASTHANI [2310, 2346, 2309] = 3"
  "keywordMatches ENGLISH (trim (toLowerCase [2310, 2346, 2309])) = 0"
  "keywordMatches HINDI (trim (toLowerCase [2310, 2346, 2309])) = 1"
  "keywordMatches RAJASTHANI (trim (toLowerCase [2310, 2346, 2309])) = 0"
  by (simp_all add: scriptMatches_def script_def keywordMatches_def keyword_defs string_defs
      trim_def)

lemma aap_scores:
  "scoresWithHintDouble toLowerCase ''hin'' [2310, 2346, 2309]
     = [(ENGLISH, 0), (HINDI, 9007199254740991 / 4503599627370496),
        (RAJASTHANI, 2026619832316723 / 2251799813685248)]"
  by (simp add: scoresWithHintDouble_def francBonusDouble_def aap_counts
      double_literals double_values)

lemma aap_sorted:
  "sortedScoresDouble toLowerCase ''hin'' [2310, 2346, 2309]
     = [(HINDI, 7205759403792793 / 36028797018963968),
        (RAJASTHANI, 3242591731706757 / 36028797018963968), (ENGLISH, 0)]"
  by (simp add: sortedScoresDouble_def aap_scores double_literals double_values)

lemma yes_counts:
  "scriptMatches ENGLISH (asc ''yes'' @ [2309, 2309, 2309, 2309]) = 3"
  "scriptMatches HINDI (asc ''yes'' @ [2309, 2309, 2309, 2309]) = 4"
  "scriptMatches RAJASTHANI (asc ''yes'' @ [2309, 2309, 2309, 2309]) = 4"
  "keywordMatches ENGLISH (trim (toLowerCase (asc ''yes'' @ [2309, 2309, 2309, 2309]))) = 1"
  "keywordMatches HINDI (trim (toLowerCase (asc ''yes'' @ [2309, 2309, 2309, 2309]))) = 0"
  "keywordMatches RAJASTHANI (trim (toLowerCase (asc ''yes'' @ [2309, 2309, 2309, 2309]))) = 0"
  by (simp_all add: scriptMatches_def script_def keywordMatches_def keyword_defs string_defs
      trim_def)

lemma double_values_tie:
  "roundDouble (7205759403792793 / 4503599627370496) = 7205759403792793 / 4503599627370496"
  "roundDouble (5404319552844595 / 4503599627370496) = 5404319552844595 / 4503599627370496"
  "roundDouble (14411518807585587 / 9007199254740992) = 3602879701896397 / 2251799813685248"
  "roundDouble (7205759403792793 / 45035996273704960) = 2882303761517117 / 18014398509481984"
  "roundDouble (3602879701896397 / 22517998136852480) = 5764607523034235 / 36028797018963968"
  "roundDouble (1080863910568919 / 9007199254740992) = 1080863910568919 / 9007199254740992"
  "roundDouble (5404319552844595 / 45035996273704960) = 1080863910568919 / 9007199254740992"
  "roundDouble (3602879701896397 / 2251799813685248) = 3602879701896397 / 2251799813685248"
  by (simp_all add: double_defs)

lemma yes_scores:
  "scoresWithHintDouble toLowerCase ''hin'' (asc ''yes'' @ [2309, 2309, 2309, 2309])
     = [(ENGLISH, 7205759403792793 / 4503599627370496),
        (HINDI, 3602879701896397 / 2251799813685248),
        (RAJASTHANI, 5404319552844595 / 4503599627370496)]"
  by (simp add: scoresWithHintDouble_def francBonusDouble_def yes_counts
      double_literals double_values double_values_tie)

lemma yes_sorted:
  "sortedScoresDouble toLowerCase ''hin'' (asc ''yes'' @ [2309, 2309, 2309, 2309])
     = [(HINDI, 5764607523034235 / 36028797018963968),
        (ENGLISH, 2882303761517117 / 18014398509481984),
        (RAJASTHANI, 1080863910568919 / 9007199254740992)]"
  by (simp add: sortedScoresDouble_def yes_scores double_literals double_values_tie)

lemma not_blank:
  "trim [2309, 2309, 2309, 2309, 2309] \<noteq> []"
  "trim [2310, 2346, 2309] \<noteq> []"
  "trim (asc ''yes'' @ [2309, 2309, 2309, 2309]) \<noteq> []"
  by (simp_all add: trim_def asc_def isWhiteSpace_def)

lemma exact_arithmetic_differs:
  "det_language (detectLanguage francHin [2310, 2346, 2309]) = HINDI"
  "sortedScores ''hin'' (asc ''yes'' @ [2309, 2309, 2309, 2309])
     = [(ENGLISH, 0.16), (HINDI, 0.16), (RAJASTHANI, 0.12)]"
proof -
  have "sortedScores ''hin'' [2310, 2346, 2309]
          = [(HINDI, 0.2), (RAJASTHANI, 0.09), (ENGLISH, 0)]"
    using aap_counts by (simp add: sortedScores_def scoresWithHint_def francBonus_def)
  then show "det_language (detectLanguage francHin [2310, 2346, 2309]) = HINDI"
    by (simp add: detectLanguage_def francHin_def trim_def isWhiteSpace_def)
  show "sortedScores ''hin'' (asc ''yes'' @ [2309, 2309, 2309, 2309])
     = [(ENGLISH, 0.16), (HINDI, 0.16), (RAJASTHANI, 0.12)]"
    using yes_counts by (simp add: sortedScores_def scoresWithHint_def francBonus_def)
qed

text \<open>
  Three messages. Five Devanagari letters that hold no keyword, with the hint "und":
  Hindi and Rajasthani score 1.5 each, their confidence is the double nearest to 0.15,
  the result is ENGLISH with 0.5, and Rajasthani stays as an alternative. The Hindi
  keyword U+0906 U+092A followed by the letter U+0905, with the hint "hin": the score of
  Hindi is \<open>(0.4 + 3 * 0.3) + 0.7\<close>, which is 2 in exact arithmetic and
  1.9999999999999998 in double precision, so its confidence 0.19999999999999998 is below
  0.2 and the result is ENGLISH with 0.5; the confidence of Rajasthani,
  0.09000000000000001, is not above 0.1, and there is no alternative. The word "yes"
  followed by four Devanagari letters, with the hint "hin": English scores
  1.5999999999999999 and Hindi 1.6, which are equal in exact arithmetic, so Hindi comes
  first and the alternatives are English and Rajasthani.
\<close>

theorem weak_signal_defaults_to_english_witness:
  "trim [2309, 2309, 2309, 2309, 2309] \<noteq> []
   \<and> francUnd [2309, 2309, 2309, 2309, 2309] = Returned ''und''
   \<and> sortedScoresDouble toLowerCase ''und'' [2309, 2309, 2309, 2309, 2309]
       = (HINDI, 5404319552844595 / 36028797018963968)
         # [(RAJASTHANI, 5404319552844595 / 36028797018963968), (ENGLISH, 0)]
   \<and> snd (HINDI, 5404319552844595 / 36028797018963968 :: real) < roundDouble 0.2
   \<and> detectLanguageDouble toLowerCase francUnd [2309, 2309, 2309, 2309, 2309]
       = \<lparr>det_language = ENGLISH, det_confidence = 0.5,
          alternatives = Some [(RAJASTHANI, 5404319552844595 / 36028797018963968)]\<rparr>
   \<and> trim [2310, 2346, 2309] \<noteq> []
   \<and> francHin [2310, 2346, 2309] = Returned ''hin''
   \<and> sortedScoresDouble toLowerCase ''hin'' [2310, 2346, 2309]
       = (HINDI, 7205759403792793 / 36028797018963968)
         # [(RAJASTHANI, 3242591731706757 / 36028797018963968), (ENGLISH, 0)]
   \<and> snd (HINDI, 7205759403792793 / 36028797018963968 :: real) < roundDouble 0.2
   \<and> detectLanguageDouble toLowerCase francHin [2310, 2346, 2309]
       = \<lparr>det_language = ENGLISH, det_confidence = 0.5, alternatives = None\<rparr>
   \<and> trim (asc ''yes'' @ [2309, 2309, 2309, 2309]) \<noteq> []
   \<and> francHin (asc ''yes'' @ [2309, 2309, 2309, 2309]) = Returned ''hin''
   \<and> sortedScoresDouble toLowerCase ''hin'' (asc ''yes'' @ [2309, 2309, 2309, 2309])
       = (HINDI, 5764607523034235 / 36028797018963968)
         # [(ENGLISH, 2882303761517117 / 18014398509481984),
            (RAJASTHANI, 1080863910568919 / 9007199254740992)]
   \<and> snd (HINDI, 5764607523034235 / 36028797018963968 :: real) < roundDouble 0.2
   \<and> detectLanguageDouble toLowerCase francHin (asc ''yes'' @ [2309, 2309, 2309, 2309])
       = \<lparr>det_language = ENGLISH, det_confidence = 0.5,
          alternatives = Some [(ENGLISH, 2882303761517117 / 18014398509481984),
                               (RAJASTHANI, 1080863910568919 / 9007199254740992)]\<rparr>"
  using weak_signal_defaults_to_english
      [of "[2309, 2309, 2309, 2309, 2309]" francUnd "''und''" toLowerCase
          "(HINDI, 5404319552844595 / 36028797018963968)"
          "[(RAJASTHANI, 5404319552844595 / 36028797018963968), (ENGLISH, 0)]"]
    weak_signal_defaults_to_english
      [of "[2310, 2346, 2309]" francHin "''hin''" toLowerCase
          "(HINDI, 7205759403792793 / 36028797018963968)"
          "[(RAJASTHANI, 3242591731706757 / 36028797018963968), (ENGLISH, 0)]"]
    weak_signal_defaults_to_english
      [of "asc ''yes'' @ [2309, 2309, 2309, 2309]" francHin "''hin''" toLowerCase
          "(HINDI, 5764607523034235 / 36028797018963968)"
          "[(ENGLISH, 2882303761517117 / 18014398509481984),
            (RAJASTHANI, 1080863910568919 / 9007199254740992)]"]
  by (simp add: five_letters_sorted aap_sorted yes_sorted not_blank francUnd_def
      francHin_def double_literals)


section \<open>The detector on messages made of keywords\<close>

text \<open>
  When one language beats every other by more than the bonus of the hint, and its own
  score is above 2, the detector returns it, with a confidence above 0.2, whatever
  \<open>franc\<close> does.
\<close>

lemma francBonus_bounds: "0 \<le> francBonus code lang \<and> francBonus code lang \<le> 0.4"
  by (cases lang) (simp_all add: francBonus_def)

lemma scoresWithHint_plain:
  "scoresWithHint code text
     = [(ENGLISH, francBonus code ENGLISH + plainScore ENGLISH text),
        (HINDI, francBonus code HINDI + plainScore HINDI text),
        (RAJASTHANI, francBonus code RAJASTHANI + plainScore RAJASTHANI text)]"
  by (simp add: scoresWithHint_def plainScore_def Let_def)

lemma scoresNoHint_plain:
  "scoresNoHint text
     = [(ENGLISH, plainScore ENGLISH text), (HINDI, plainScore HINDI text),
        (RAJASTHANI, plainScore RAJASTHANI text)]"
  by (simp add: scoresNoHint_def plainScore_def Let_def)

lemma sort_key_top:
  fixes xs :: "('a \<times> real) list"
  assumes "x \<in> set xs" and "\<forall>y \<in> set xs. y \<noteq> x \<longrightarrow> snd y < snd x"
  shows "\<exists>rest. sort_key (\<lambda>(l, s). - s) xs = x # rest"
proof -
  let ?ys = "sort_key (\<lambda>(l, s). - s) xs"
  have s: "sorted (map (\<lambda>(l, s). - s) ?ys)"
    by (rule sorted_sort_key)
  have "x \<in> set ?ys"
    using assms(1) by simp
  then obtain y rest where ys: "?ys = y # rest"
    by (cases ?ys) auto
  have "y \<in> set xs"
    using ys by (metis list.set_intros(1) set_sort)
  have "y = x"
  proof (rule ccontr)
    assume n: "y \<noteq> x"
    then have lt: "snd y < snd x"
      using assms(2) \<open>y \<in> set xs\<close> by blast
    from n \<open>x \<in> set ?ys\<close> ys have "x \<in> set rest"
      by auto
    with s ys have "snd x \<le> snd y"
      by (auto simp: case_prod_beta)
    with lt show False
      by simp
  qed
  with ys show ?thesis
    by blast
qed

lemma detect_top:
  assumes ne: "trim text \<noteq> []"
    and others: "\<forall>l. l \<noteq> L \<longrightarrow> plainScore l text + 0.4 < plainScore L text"
    and high: "plainScore L text > 2"
  shows "det_language (detectLanguage fr text) = L
         \<and> det_confidence (detectLanguage fr text) > 0.2"
proof -
  have t: "text \<noteq> []"
    using ne by (auto simp: trim_def)
  show ?thesis
  proof (cases "fr text")
    case (Returned code)
    let ?t = "\<lambda>l. francBonus code l + plainScore l text"
    have gt: "\<forall>l. l \<noteq> L \<longrightarrow> ?t l < ?t L"
    proof (intro allI impI)
      fix l
      assume "l \<noteq> L"
      then have "plainScore l text + 0.4 < plainScore L text"
        using others by blast
      then show "?t l < ?t L"
        using francBonus_bounds [of code l] francBonus_bounds [of code L] by linarith
    qed
    have hi: "?t L > 2"
      using high francBonus_bounds [of code L] by simp
    let ?xs = "scoresWithHint code text"
    have xs: "?xs = [(ENGLISH, ?t ENGLISH), (HINDI, ?t HINDI), (RAJASTHANI, ?t RAJASTHANI)]"
      by (rule scoresWithHint_plain)
    have mem: "(L, ?t L) \<in> set ?xs"
      unfolding xs by (cases L) simp_all
    have top: "\<forall>y \<in> set ?xs. y \<noteq> (L, ?t L) \<longrightarrow> snd y < snd (L, ?t L)"
      unfolding xs using gt by (cases L) auto
    from sort_key_top [OF mem top] obtain rest where
      "sort_key (\<lambda>(l, s). - s) ?xs = (L, ?t L) # rest"
      by blast
    then have ss: "sortedScores code text
        = (L, min (?t L / 10) 1) # map (\<lambda>(l, s). (l, min (s / 10) 1)) rest"
      by (simp add: sortedScores_def)
    have c: "min (?t L / 10) 1 > 0.2"
      using hi by (simp add: min_def)
    then have c': "\<not> min (?t L / 10) 1 < 0.2"
      by linarith
    show ?thesis
      using t ne Returned c c' by (simp add: detectLanguage_def ss Let_def del: min_less_iff_conj)
  next
    case Thrown
    have lt: "plainScore l text < plainScore L text" if "l \<noteq> L" for l
    proof -
      have "plainScore l text + 0.4 < plainScore L text"
        using others that by blast
      then show ?thesis
        by simp
    qed
    have b: "bestMatch (scoresNoHint text) = (L, plainScore L text)"
    proof (cases L)
      case ENGLISH
      with lt [of HINDI] lt [of RAJASTHANI] show ?thesis
        by (simp add: scoresNoHint_plain bestMatch_def)
    next
      case HINDI
      with lt [of ENGLISH] lt [of RAJASTHANI] show ?thesis
        by (simp add: scoresNoHint_plain bestMatch_def)
    next
      case RAJASTHANI
      with lt [of ENGLISH] lt [of HINDI] show ?thesis
        by (simp add: scoresNoHint_plain bestMatch_def)
    qed
    have c: "min (plainScore L text / 10) 1 > 0.2"
      using high by (simp add: min_def)
    show ?thesis
      using t ne Thrown c by (simp add: detectLanguage_def b Let_def del: min_less_iff_conj)
  qed
qed

text \<open>Facts about \<open>join\<close> and about \<open>trim\<close>.\<close>

lemma sublist_split:
  assumes "sublist k (xs @ c # ys)" and "c \<notin> set k"
  shows "sublist k xs \<or> sublist k ys"
proof -
  from assms(1) obtain ps ss where e: "xs @ c # ys = ps @ k @ ss"
    by (auto simp: sublist_def)
  then consider us where "xs = ps @ us" "us @ c # ys = k @ ss"
    | us where "xs @ us = ps" "c # ys = us @ k @ ss"
    by (auto simp: append_eq_append_conv2)
  then show ?thesis
  proof cases
    case 1
    from 1(2) consider vs where "us @ vs = k" "c # ys = vs @ ss"
      | vs where "us = k @ vs" "vs @ c # ys = ss"
      by (auto simp: append_eq_append_conv2)
    then show ?thesis
    proof cases
      case 1
      with assms(2) have "vs = []"
        by (cases vs) auto
      with 1 \<open>xs = ps @ us\<close> have "xs = ps @ k @ []"
        by simp
      then show ?thesis
        unfolding sublist_def by blast
    next
      case 2
      with \<open>xs = ps @ us\<close> have "xs = ps @ k @ vs"
        by simp
      then show ?thesis
        unfolding sublist_def by blast
    qed
  next
    case 2
    show ?thesis
    proof (cases us)
      case Nil
      with 2 assms(2) have "k = []"
        by (cases k) auto
      then show ?thesis by simp
    next
      case (Cons u us')
      with 2 have "ys = us' @ k @ ss" by simp
      then show ?thesis unfolding sublist_def by blast
    qed
  qed
qed

lemma sublist_join:
  assumes "sublist k (join [sep] ws)" and "sep \<notin> set k" and "k \<noteq> []"
  shows "\<exists>w \<in> set ws. sublist k w"
  using assms
proof (induction "[sep]" ws rule: join.induct)
  case 1
  then show ?case by simp
next
  case (2 x)
  then show ?case by simp
next
  case (3 x y ys)
  from "3.prems"(1) have "sublist k (x @ sep # join [sep] (y # ys))"
    by simp
  then have "sublist k x \<or> sublist k (join [sep] (y # ys))"
    using "3.prems"(2) by (rule sublist_split)
  then show ?case
    using 3 by auto
qed

lemma set_join: "set (join [sep] ws) \<subseteq> insert sep (\<Union> (set ` set ws))"
  by (induction "[sep]" ws rule: join.induct) auto

lemma filter_join_all:
  assumes "\<forall>w \<in> set ws. \<forall>c \<in> set w. P c" and "\<not> P sep"
  shows "length (filter P (join [sep] ws)) = sum_list (map length ws)"
  using assms by (induction "[sep]" ws rule: join.induct) auto

lemma filter_join_none:
  assumes "\<forall>w \<in> set ws. \<forall>c \<in> set w. \<not> P c" and "\<not> P sep"
  shows "length (filter P (join [sep] ws)) = 0"
  using assms by (induction "[sep]" ws rule: join.induct) auto

lemma map_join_id:
  assumes "\<forall>w \<in> set ws. \<forall>c \<in> set w. f c = c" and "f sep = sep"
  shows "map f (join [sep] ws) = join [sep] ws"
  using assms by (induction "[sep]" ws rule: join.induct) (auto simp: map_idI)

lemma join_nonempty:
  assumes "ws \<noteq> []" and "\<forall>w \<in> set ws. w \<noteq> []"
  shows "join [sep] ws \<noteq> []"
  using assms by (induction "[sep]" ws rule: join.induct) auto

lemma hd_join:
  assumes "ws \<noteq> []" and "\<forall>w \<in> set ws. w \<noteq> []"
  shows "hd (join [sep] ws) \<in> \<Union> (set ` set ws)"
  using assms by (induction "[sep]" ws rule: join.induct) (auto simp: hd_append)

lemma last_join:
  assumes "ws \<noteq> []" and "\<forall>w \<in> set ws. w \<noteq> []"
  shows "last (join [sep] ws) \<in> \<Union> (set ` set ws)"
  using assms
proof (induction "[sep]" ws rule: join.induct)
  case (3 x y ys)
  have "join [sep] (y # ys) \<noteq> []"
    using 3 by (intro join_nonempty) auto
  then have "last (join [sep] (x # y # ys)) = last (join [sep] (y # ys))"
    by simp
  then show ?case using 3 by auto
qed auto

lemma trim_id:
  assumes "s \<noteq> []" and "\<not> isWhiteSpace (hd s)" and "\<not> isWhiteSpace (last s)"
  shows "trim s = s"
proof -
  have 1: "dropWhile isWhiteSpace s = s"
    using assms(1,2) by (cases s) auto
  have "rev s \<noteq> []" "\<not> isWhiteSpace (hd (rev s))"
    using assms(1,3) by (auto simp: hd_rev)
  then have 2: "dropWhile isWhiteSpace (rev s) = rev s"
    by (cases "rev s") auto
  show ?thesis
    by (simp add: trim_def 1 2)
qed

lemma trim_join:
  assumes "ws \<noteq> []" and "\<forall>w \<in> set ws. w \<noteq> [] \<and> (\<forall>c \<in> set w. \<not> isWhiteSpace c)"
  shows "trim (join [sep] ws) = join [sep] ws"
proof (rule trim_id)
  show "join [sep] ws \<noteq> []"
    using assms by (intro join_nonempty) auto
  show "\<not> isWhiteSpace (hd (join [sep] ws))"
    using hd_join [of ws sep] assms by auto
  show "\<not> isWhiteSpace (last (join [sep] ws))"
    using last_join [of ws sep] assms by auto
qed

text \<open>The keyword lists, checked entry by entry.\<close>

lemma english_keywords:
  "\<forall>k \<in> set keywordsEnglish. 2 \<le> length k \<and> (\<forall>c \<in> set k. 97 \<le> c \<and> c \<le> 122)"
  by (simp add: keywordsEnglish_def asc_def)

lemma hindi_keywords:
  "\<forall>k \<in> set keywordsHindi. 2 \<le> length k \<and> (\<forall>c \<in> set k. 2304 \<le> c \<and> c \<le> 2431)"
  by (simp add: keywordsHindi_def)

lemma rajasthani_keywords:
  "\<forall>k \<in> set keywordsRajasthani. 2 \<le> length k \<and> (\<forall>c \<in> set k. 2304 \<le> c \<and> c \<le> 2431)"
  by (simp add: keywordsRajasthani_def)

lemma no_rajasthani_in_hindi:
  "list_all (\<lambda>w. list_all (\<lambda>r. \<not> includes_js w r) keywordsRajasthani) keywordsHindi"
  by (simp add: keywordsHindi_def keywordsRajasthani_def)

lemma hindi_in_rajasthani:
  "list_all (\<lambda>h. h = [2341, 2366] \<or> list_all (\<lambda>w. \<not> includes_js w h) keywordsRajasthani)
     keywordsHindi"
  by (simp add: keywordsHindi_def keywordsRajasthani_def)

lemma keyword_units:
  assumes "k \<in> set (keywordsOf lang)"
  shows "2 \<le> length k \<and> (\<forall>c \<in> set k. wordUnit lang c)"
  using assms english_keywords hindi_keywords rajasthani_keywords
  by (cases lang) (auto simp: keywordsOf_def wordUnit_def)

lemma wordUnit_plain:
  assumes "wordUnit lang c"
  shows "script lang c" and "lowerUnit c = c" and "\<not> isWhiteSpace c" and "c \<noteq> 32"
  using assms by (cases lang; simp add: wordUnit_def script_def lowerUnit_def isWhiteSpace_def)+

lemma space_plain: "\<not> script lang 32" "lowerUnit 32 = 32"
  by (cases lang; simp add: script_def lowerUnit_def)+

lemma wordUnit_other_script:
  assumes "wordUnit lang c" and "l = ENGLISH \<or> lang = ENGLISH" and "l \<noteq> lang"
  shows "\<not> script l c" and "\<not> wordUnit l c"
  using assms by (cases lang; cases l; simp add: wordUnit_def script_def)+

lemma same_script:
  assumes "l \<noteq> ENGLISH" and "lang \<noteq> ENGLISH"
  shows "scriptMatches l text = scriptMatches lang text"
proof -
  have "script l = script lang"
    using assms by (cases lang; cases l; simp add: script_def fun_eq_iff)
  then show ?thesis
    by (simp add: scriptMatches_def)
qed

lemma keyword_lower:
  assumes "k \<in> set (keywordsOf lang)"
  shows "toLowerCase k = k"
proof -
  have "\<forall>c \<in> set k. lowerUnit c = c"
    using keyword_units [OF assms] wordUnit_plain(2) by blast
  then show ?thesis
    by (simp add: toLowerCase_def map_idI)
qed

lemma keywordMatches_plain:
  "keywordMatches lang s = length (filter (\<lambda>k. sublist k s) (keywordsOf lang))"
proof -
  have "filter (\<lambda>keyword. includes_js s (toLowerCase keyword)) (keywordsOf lang)
        = filter (\<lambda>k. sublist k s) (keywordsOf lang)"
    by (rule filter_cong) (simp_all add: keyword_lower includes_iff_sublist)
  then show ?thesis
    by (simp add: keywordMatches_def)
qed

lemma sublist_same_length:
  assumes "sublist k w" and "length w \<le> length k"
  shows "k = w"
proof -
  from assms(1) obtain ps ss where "w = ps @ k @ ss"
    by (auto simp: sublist_def)
  with assms(2) show ?thesis
    by simp
qed

lemma two_elements:
  assumes "2 \<le> card S"
  obtains a b where "a \<in> S" "b \<in> S" "a \<noteq> b"
proof -
  from assms have "finite S"
    using card.infinite by fastforce
  from assms obtain a where a: "a \<in> S"
    by (metis card.empty all_not_in_conv not_numeral_le_zero)
  with assms \<open>finite S\<close> have "1 \<le> card (S - {a})"
    by simp
  then obtain b where "b \<in> S - {a}"
    by (metis card.empty all_not_in_conv not_one_le_zero)
  with a that show ?thesis
    by blast
qed

lemma keyword_message_plain:
  assumes "ws \<noteq> []" and "set ws \<subseteq> set (keywordsOf L)"
  shows "trim (toLowerCase (join [32] ws)) = join [32] ws"
    and "trim (join [32] ws) \<noteq> []"
    and "scriptMatches L (join [32] ws) = sum_list (map length ws)"
proof -
  have u: "\<forall>w \<in> set ws. 2 \<le> length w \<and> (\<forall>c \<in> set w. wordUnit L c)"
    using assms(2) keyword_units by blast
  have low: "toLowerCase (join [32] ws) = join [32] ws"
    unfolding toLowerCase_def
    by (rule map_join_id) (use u wordUnit_plain(2) space_plain(2) in blast)+
  have tr: "trim (join [32] ws) = join [32] ws"
  proof (rule trim_join [OF assms(1)])
    show "\<forall>w \<in> set ws. w \<noteq> [] \<and> (\<forall>c \<in> set w. \<not> isWhiteSpace c)"
      using u wordUnit_plain(3) by fastforce
  qed
  have "\<forall>w \<in> set ws. w \<noteq> []"
    using u by fastforce
  then have ne: "join [32] ws \<noteq> []"
    using assms(1) by (intro join_nonempty)
  show "trim (toLowerCase (join [32] ws)) = join [32] ws"
    by (simp add: low tr)
  show "trim (join [32] ws) \<noteq> []"
    by (simp add: tr ne)
  show "scriptMatches L (join [32] ws) = sum_list (map length ws)"
    unfolding scriptMatches_def
    by (rule filter_join_all) (use u wordUnit_plain(1) space_plain(1) in blast)+
qed

lemma keyword_message_units:
  assumes "set ws \<subseteq> set (keywordsOf L)" and "c \<in> set (join [32] ws)"
  shows "c = 32 \<or> wordUnit L c"
  using set_join [of 32 ws] assms keyword_units by blast

lemma other_script_zero:
  assumes "ws \<noteq> []" and "set ws \<subseteq> set (keywordsOf L)"
    and "l = ENGLISH \<or> L = ENGLISH" and "l \<noteq> L"
  shows "plainScore l (join [32] ws) = 0"
proof -
  have "\<forall>w \<in> set ws. \<forall>c \<in> set w. \<not> script l c"
    using assms(2-4) keyword_units wordUnit_other_script(1) by blast
  then have s: "scriptMatches l (join [32] ws) = 0"
    unfolding scriptMatches_def using space_plain(1) by (rule filter_join_none)
  have "\<not> sublist k (join [32] ws)" if k: "k \<in> set (keywordsOf l)" for k
  proof
    assume "sublist k (join [32] ws)"
    then have sub: "set k \<subseteq> set (join [32] ws)"
      by (rule set_mono_sublist)
    from keyword_units [OF k] obtain c where c: "c \<in> set k" "wordUnit l c"
      by (cases k) auto
    with sub have "c = 32 \<or> wordUnit L c"
      using keyword_message_units [OF assms(2)] by blast
    moreover have "c \<noteq> 32"
      using c(2) by (rule wordUnit_plain(4))
    moreover have "\<not> wordUnit L c"
      using wordUnit_other_script(2) [OF c(2), of L] assms(3,4) by auto
    ultimately show False
      by simp
  qed
  then have "filter (\<lambda>k. sublist k (join [32] ws)) (keywordsOf l) = []"
    by (simp add: filter_empty_conv)
  then have k: "keywordMatches l (join [32] ws) = 0"
    by (simp add: keywordMatches_plain)
  show ?thesis
    by (simp add: plainScore_def s k keyword_message_plain(1) [OF assms(1,2)])
qed

lemma keyword_in_word:
  assumes "set ws \<subseteq> set (keywordsOf L)" and "k \<in> set (keywordsOf l)"
    and "sublist k (join [32] ws)"
  shows "\<exists>w \<in> set (keywordsOf L). sublist k w"
proof -
  have "32 \<notin> set k" "k \<noteq> []"
    using keyword_units [OF assms(2)] wordUnit_plain(4) by fastforce+
  with assms(3) obtain w where "w \<in> set ws" "sublist k w"
    using sublist_join by blast
  with assms(1) show ?thesis
    by blast
qed

lemma rajasthani_count_in_hindi:
  assumes "set ws \<subseteq> set (keywordsOf HINDI)"
  shows "keywordMatches RAJASTHANI (join [32] ws) = 0"
proof -
  have "\<not> sublist k (join [32] ws)" if k: "k \<in> set (keywordsOf RAJASTHANI)" for k
  proof
    assume "sublist k (join [32] ws)"
    from keyword_in_word [OF assms k this] obtain w where
      "w \<in> set keywordsHindi" "includes_js w k"
      by (auto simp: keywordsOf_def includes_iff_sublist)
    with k no_rajasthani_in_hindi show False
      by (auto simp: list_all_iff keywordsOf_def)
  qed
  then have "filter (\<lambda>k. sublist k (join [32] ws)) (keywordsOf RAJASTHANI) = []"
    by (simp add: filter_empty_conv)
  then show ?thesis
    by (simp add: keywordMatches_plain)
qed

lemma length_filter_conj_le:
  "length (filter (\<lambda>x. P x \<and> Q x) xs) \<le> length (filter Q xs)"
  by (induction xs) auto

lemma hindi_count_in_rajasthani:
  assumes "set ws \<subseteq> set (keywordsOf RAJASTHANI)"
  shows "keywordMatches HINDI (join [32] ws) \<le> 1"
proof -
  have "k = [2341, 2366]"
    if k: "k \<in> set (keywordsOf HINDI)" and s: "sublist k (join [32] ws)" for k
  proof -
    from keyword_in_word [OF assms k s] obtain w where
      "w \<in> set keywordsRajasthani" "includes_js w k"
      by (auto simp: keywordsOf_def includes_iff_sublist)
    with k hindi_in_rajasthani show ?thesis
      by (auto simp: list_all_iff keywordsOf_def)
  qed
  then have "filter (\<lambda>k. sublist k (join [32] ws)) (keywordsOf HINDI)
             = filter (\<lambda>k. sublist k (join [32] ws) \<and> k = [2341, 2366]) (keywordsOf HINDI)"
    by (intro filter_cong) auto
  also have "length \<dots> \<le> length (filter (\<lambda>k. k = [2341, 2366]) (keywordsOf HINDI))"
    by (rule length_filter_conj_le)
  finally have "keywordMatches HINDI (join [32] ws)
                \<le> length (filter (\<lambda>k. k = [2341, 2366]) (keywordsOf HINDI))"
    by (simp add: keywordMatches_plain)
  also have "\<dots> = 1"
    by (simp add: keywordsOf_def keywordsHindi_def)
  finally show ?thesis .
qed

lemma keyword_message_three_units:
  assumes "ws \<noteq> []" and "set ws \<subseteq> set (keywordsOf L)"
    and "2 \<le> card {k \<in> set (keywordsOf L). includes_js (join [32] ws) k}"
  shows "3 \<le> sum_list (map length ws)"
proof (cases ws)
  case Nil
  with assms(1) show ?thesis by simp
next
  case (Cons w rest)
  show ?thesis
  proof (cases rest)
    case Nil
    from assms(3) obtain a b where
      ab: "a \<in> {k \<in> set (keywordsOf L). includes_js (join [32] ws) k}"
          "b \<in> {k \<in> set (keywordsOf L). includes_js (join [32] ws) k}" "a \<noteq> b"
      by (rule two_elements)
    then have sa: "sublist a w" and sb: "sublist b w"
      using Cons Nil by (simp_all add: includes_iff_sublist)
    have la: "2 \<le> length a" and lb: "2 \<le> length b"
      using ab keyword_units by auto
    have "\<not> length w \<le> 2"
    proof
      assume "length w \<le> 2"
      then have "a = w" "b = w"
        using sa sb la lb by (auto intro: sublist_same_length)
      with ab(3) show False by simp
    qed
    then show ?thesis
      using Cons Nil by simp
  next
    case (Cons w' rest')
    have "2 \<le> length w" "2 \<le> length w'"
      using assms(2) \<open>ws = w # rest\<close> Cons keyword_units by auto
    then show ?thesis
      using \<open>ws = w # rest\<close> Cons by simp
  qed
qed

lemma keyword_message_two_matches:
  assumes "2 \<le> card {k \<in> set (keywordsOf L). includes_js s k}"
  shows "2 \<le> keywordMatches L s"
proof -
  have "{k \<in> set (keywordsOf L). includes_js s k}
        = set (filter (\<lambda>k. sublist k s) (keywordsOf L))"
    by (auto simp: includes_iff_sublist)
  then have "card {k \<in> set (keywordsOf L). includes_js s k}
             \<le> length (filter (\<lambda>k. sublist k s) (keywordsOf L))"
    by (simp only: card_length)
  with assms show ?thesis
    by (simp add: keywordMatches_plain)
qed

text \<open>
  C6. For every language \<open>L\<close> of the enumeration and every message that consists only
  of words from the keyword list of \<open>L\<close>, separated by single spaces: when at least two
  distinct keywords of \<open>L\<close> occur in the message, the detector returns \<open>L\<close> with a
  confidence strictly above 0.2. This holds for every behaviour of \<open>franc\<close>, whichever
  code it returns and also when it throws.
\<close>

theorem keyword_message_detected:
  assumes "ws \<noteq> []" and "set ws \<subseteq> set (keywordsOf L)"
    and "2 \<le> card {k \<in> set (keywordsOf L). includes_js (join [32] ws) k}"
  shows "det_language (detectLanguage fr (join [32] ws)) = L
         \<and> det_confidence (detectLanguage fr (join [32] ws)) > 0.2"
proof (rule detect_top)
  let ?text = "join [32] ws"
  note plain = keyword_message_plain [OF assms(1,2)]
  show "trim ?text \<noteq> []"
    by (rule plain(2))
  have s: "3 \<le> scriptMatches L ?text"
    using keyword_message_three_units [OF assms] by (simp add: plain(3))
  have k: "2 \<le> keywordMatches L ?text"
    using assms(3) by (rule keyword_message_two_matches)
  have own: "plainScore L ?text
             = real (scriptMatches L ?text) * 0.3 + real (keywordMatches L ?text) * 0.7"
    by (simp add: plainScore_def plain(1))
  have "real (scriptMatches L ?text) \<ge> 3" "real (keywordMatches L ?text) \<ge> 2"
    using s k by simp_all
  then have low: "plainScore L ?text \<ge> real (scriptMatches L ?text) * 0.3 + 1.4"
    and "plainScore L ?text \<ge> 2.3"
    unfolding own by simp_all
  then show "2 < plainScore L ?text"
    by simp
  show "\<forall>l. l \<noteq> L \<longrightarrow> plainScore l ?text + 0.4 < plainScore L ?text"
  proof (intro allI impI)
    fix l
    assume d: "l \<noteq> L"
    show "plainScore l ?text + 0.4 < plainScore L ?text"
    proof (cases "l = ENGLISH \<or> L = ENGLISH")
      case True
      then have "plainScore l ?text = 0"
        using d by (intro other_script_zero [OF assms(1,2)])
      with \<open>plainScore L ?text \<ge> 2.3\<close> show ?thesis
        by simp
    next
      case False
      then have sc: "scriptMatches l ?text = scriptMatches L ?text"
        by (intro same_script) simp_all
      have "keywordMatches l ?text \<le> 1"
      proof (cases L)
        case ENGLISH
        with False show ?thesis by simp
      next
        case HINDI
        with False d have "l = RAJASTHANI"
          by (cases l) simp_all
        with HINDI assms(2) show ?thesis
          by (simp add: rajasthani_count_in_hindi)
      next
        case RAJASTHANI
        with False d have "l = HINDI"
          by (cases l) simp_all
        with RAJASTHANI assms(2) show ?thesis
          using hindi_count_in_rajasthani [of ws] by simp
      qed
      then have "real (keywordMatches l ?text) \<le> 1"
        by simp
      then have "plainScore l ?text \<le> real (scriptMatches L ?text) * 0.3 + 0.7"
        by (simp add: plainScore_def plain(1) sc)
      with low show ?thesis
        by simp
    qed
  qed
qed

text \<open>
  Two Rajasthani keywords that both contain a Hindi keyword, with a hint that says
  English: the detector still answers Rajasthani.
\<close>

lemma tharo_thari_present:
  "filter (\<lambda>k. includes_js (join [32] [[2341, 2366, 2352, 2379], [2341, 2366, 2352, 2368]]) k)
     (keywordsOf RAJASTHANI)
   = [[2341, 2366, 2352, 2379], [2341, 2366, 2352, 2368]]"
  by (simp add: keywordsOf_def keywordsRajasthani_def)

theorem keyword_message_detected_witness:
  "[[2341, 2366, 2352, 2379], [2341, 2366, 2352, 2368]] \<noteq> []
   \<and> set [[2341, 2366, 2352, 2379], [2341, 2366, 2352, 2368]] \<subseteq> set (keywordsOf RAJASTHANI)
   \<and> card {k \<in> set (keywordsOf RAJASTHANI).
             includes_js (join [32] [[2341, 2366, 2352, 2379], [2341, 2366, 2352, 2368]]) k} = 2
   \<and> det_language (detectLanguage francEng
         (join [32] [[2341, 2366, 2352, 2379], [2341, 2366, 2352, 2368]])) = RAJASTHANI
   \<and> det_confidence (detectLanguage francEng
         (join [32] [[2341, 2366, 2352, 2379], [2341, 2366, 2352, 2368]])) > 0.2"
proof -
  have c: "card {k \<in> set (keywordsOf RAJASTHANI).
             includes_js (join [32] [[2341, 2366, 2352, 2379], [2341, 2366, 2352, 2368]]) k} = 2"
    unfolding set_filter [symmetric] tharo_thari_present by simp
  have m: "set [[2341, 2366, 2352, 2379], [2341, 2366, 2352, 2368]]
           \<subseteq> set (keywordsOf RAJASTHANI)"
    by (simp add: keywordsOf_def keywordsRajasthani_def)
  show ?thesis
    using keyword_message_detected
      [of "[[2341, 2366, 2352, 2379], [2341, 2366, 2352, 2368]]" RAJASTHANI francEng] c m
    by simp
qed

end
